theory Spec2Isabelle
  imports Main "HOL-Library.FSet"
begin

section \<open>Bracket City: the puzzle state machine and scoring engine\<close>

text \<open>
  A shallow embedding of the solver module of the Bracket City benchmark
  (the TypeScript file that defines \<^verbatim>\<open>findActiveClues\<close>,
  \<^verbatim>\<open>findAvailableExpressions\<close>, \<^verbatim>\<open>calculateScore\<close>,
  \<^verbatim>\<open>calculateRank\<close>, \<^verbatim>\<open>makeGuess\<close>, \<^verbatim>\<open>getHint\<close>,
  \<^verbatim>\<open>revealClue\<close> and \<^verbatim>\<open>solvePuzzleWithLLM\<close>).

  Conventions of the embedding.
  \<^item> A JavaScript string is a \<^typ>\<open>string\<close>, one \<^typ>\<open>char\<close> per code unit; a
    \<^typ>\<open>char\<close> holds the code units below 256, and lower-casing and trimming
    are modelled on all of them.
  \<^item> Offsets and lengths are \<^typ>\<open>nat\<close>; scores and counters are \<^typ>\<open>int\<close>.
  \<^item> A \<^verbatim>\<open>Set<string>\<close> is a \<^typ>\<open>string fset\<close>; \<^verbatim>\<open>new Set([...s, x])\<close> is
    \<^term>\<open>finsert x s\<close> and \<^verbatim>\<open>s.size\<close> is \<^term>\<open>fcard s\<close>.
  \<^item> The own entries of the answer key \<^verbatim>\<open>Record<string, string>\<close> are a map
    \<^typ>\<open>string \<rightharpoonup> string\<close>; a lookup also sees the properties that every
    JavaScript object inherits (\<open>getProperty\<close> below).
  \<^item> Record fields keep the source's names, except where a name is reserved or
    used by two types: \<^verbatim>\<open>Clue.end\<close> is \<open>endPos\<close>, \<^verbatim>\<open>Clue.text\<close> is
    \<open>rawText\<close>, \<^verbatim>\<open>Clue.expression\<close> is \<open>clueExpression\<close>, the fields of
    \<^verbatim>\<open>ScoreConfig\<close> carry the prefix \<open>cfg\<close>, those of the run's result the
    prefix \<open>res\<close>, and the mutable locals of the run are the fields of
    \<open>RunState\<close>.
\<close>

subsection \<open>Data model\<close>

record Clue =
  start :: nat
  endPos :: nat
  rawText :: string
  clueExpression :: string

record Expression =
  expression :: string
  startIndex :: nat
  endIndex :: nat

record PuzzleData =
  completionText :: string
  puzzleDate :: string
  completionURL :: string
  solutions :: "string \<rightharpoonup> string"
  initialPuzzle :: string
  puzzleSolution :: string

record GameState =
  displayState :: string
  solvedExpressions :: "string fset"
  hintedExpressions :: "string fset"
  revealedExpressions :: "string fset"
  activeClues :: "Clue list"
  totalClues :: nat

subsection \<open>The recursive bracket parser\<close>

abbreviation LB :: char where "LB \<equiv> CHR ''[''"
abbreviation RB :: char where "RB \<equiv> CHR '']''"

text \<open>
  The inner \<^verbatim>\<open>while (i < str.length && bracketCount > 0)\<close> loop of
  \<^verbatim>\<open>findClues\<close>. The first argument is \<^verbatim>\<open>str\<close> from index \<^verbatim>\<open>i\<close> on; the
  result is \<^verbatim>\<open>innerContent\<close> (before the \<^verbatim>\<open>slice\<close>), \<^verbatim>\<open>hasNestedBrackets\<close>
  and what is left of \<^verbatim>\<open>str\<close> when the loop ends.
\<close>

fun scanBracket :: "string \<Rightarrow> nat \<Rightarrow> bool \<Rightarrow> string \<Rightarrow> string \<times> bool \<times> string" where
  "scanBracket [] bracketCount hasNestedBrackets innerContent =
     (innerContent, hasNestedBrackets, [])"
| "scanBracket (c # cs) bracketCount hasNestedBrackets innerContent =
     (if bracketCount > 0 then
        (if c = LB then scanBracket cs (bracketCount + 1) True (innerContent @ [c])
         else if c = RB then scanBracket cs (bracketCount - 1) hasNestedBrackets (innerContent @ [c])
         else scanBracket cs bracketCount hasNestedBrackets (innerContent @ [c]))
      else (innerContent, hasNestedBrackets, c # cs))"

text \<open>
  \<^verbatim>\<open>findClues(str, startOffset)\<close>. The first argument is \<^verbatim>\<open>str\<close> from index
  \<^verbatim>\<open>i\<close> on and the second is \<^verbatim>\<open>startOffset + i\<close>. The clues pushed to the
  shared \<^verbatim>\<open>activeClues\<close> array are returned in the order of the pushes: a span's
  own clue or, for a span with nested brackets, the clues of the recursive
  call on \<^verbatim>\<open>innerContent.slice(0, -1)\<close>, then those of the rest of the loop.
\<close>

function findClues :: "string \<Rightarrow> nat \<Rightarrow> Clue list" where
  "findClues [] off = []"
| "findClues (c # cs) off =
     (if c = LB then
        (case scanBracket cs 1 False [] of
           (inner, hasNestedBrackets, rest) \<Rightarrow>
             (let innerContent = butlast inner;
                  i = off + 1 + length inner
              in (if \<not> hasNestedBrackets
                  then [\<lparr>start = off, endPos = i, rawText = c # inner,
                         clueExpression = innerContent\<rparr>]
                  else findClues innerContent (off + 1))
                 @ findClues rest i))
      else findClues cs (off + 1))"
  by pat_completeness auto
termination
proof (relation "measure (\<lambda>(s, off). length s)")
  have len: "length (fst (scanBracket cs n b acc)) + length (snd (snd (scanBracket cs n b acc)))
      = length acc + length cs" for cs n b acc
    by (induction cs arbitrary: n b acc) auto
  show "wf (measure (\<lambda>(s, off). length s))" by simp
  show "((innerContent, off + 1), c # cs, off) \<in> measure (\<lambda>(s, off). length s)"
    if "(inner, y) = scanBracket cs 1 False []" "innerContent = butlast inner"
    for c cs and off :: nat and inner y innerContent
  proof -
    have "length inner \<le> length cs"
      using len [of cs 1 False "[]"] that(1) [symmetric] by simp
    then show ?thesis using that(2) by simp
  qed
  show "((rest, i), c # cs, off) \<in> measure (\<lambda>(s, off). length s)"
    if "(inner, y) = scanBracket cs 1 False []" "(hasNested, rest) = y"
    for c cs and off :: nat and inner y hasNested rest and i :: nat
  proof -
    have "length rest \<le> length cs"
      using len [of cs 1 False "[]"] that(1) [symmetric] that(2) [symmetric] by simp
    then show ?thesis by simp
  qed
  show "((cs, off + 1), c # cs, off) \<in> measure (\<lambda>(s, off). length s)"
    for c :: char and cs and off :: nat
    by simp
qed

definition findActiveClues :: "string \<Rightarrow> Clue list" where
  "findActiveClues puzzleText = findClues puzzleText 0"

subsection \<open>The regular-expression scanner\<close>

definition notBracket :: "char \<Rightarrow> bool" where
  "notBracket c = (c \<noteq> LB \<and> c \<noteq> RB)"

text \<open>
  The loop \<^verbatim>\<open>while ((match = regex.exec(displayState)) !== null)\<close> over the
  global regular expression \<^verbatim>\<open>/\[([^\[\]]+?)\]/g\<close>. The first argument is the
  text from index \<open>idx\<close> on, where \<open>idx\<close> is the position at which the
  engine tries a match (it starts at \<^verbatim>\<open>lastIndex\<close> and moves right one code
  unit after each failed attempt). At an opening bracket the group takes the
  non-bracket characters that follow; the attempt succeeds when there is at
  least one and the next character is the closing bracket, and then
  \<^verbatim>\<open>lastIndex\<close> becomes the end of the match. \<open>matchedPositions\<close> is the
  source's set of start indices already pushed.
\<close>

function regexLoop :: "string \<Rightarrow> nat \<Rightarrow> nat fset \<Rightarrow> Expression list" where
  "regexLoop [] idx matchedPositions = []"
| "regexLoop (c # cs) idx matchedPositions =
     (if c = LB then
        (let group1 = takeWhile notBracket cs in
         case dropWhile notBracket cs of
           [] \<Rightarrow> regexLoop cs (idx + 1) matchedPositions
         | d # rest \<Rightarrow>
             if group1 \<noteq> [] \<and> d = RB then
               (let startIdx = idx;
                    endIdx = startIdx + (length group1 + 2)
                in if startIdx |\<notin>| matchedPositions
                   then \<lparr>expression = group1, startIndex = startIdx, endIndex = endIdx\<rparr>
                        # regexLoop rest endIdx (finsert startIdx matchedPositions)
                   else regexLoop rest endIdx matchedPositions)
             else regexLoop cs (idx + 1) matchedPositions)
      else regexLoop cs (idx + 1) matchedPositions)"
  by pat_completeness auto
termination
proof -
  have shorter: "length rest < Suc (length cs)"
    if "dropWhile notBracket cs = d # rest" for cs d rest
    using length_dropWhile_le [of notBracket cs] that by simp
  show ?thesis
    by (relation "measure (\<lambda>(s, idx, m). length s)") (auto dest: shorter)
qed

definition findAvailableExpressions :: "GameState \<Rightarrow> Expression list" where
  "findAvailableExpressions gameState = regexLoop (displayState gameState) 0 {||}"

subsection \<open>Balanced documents\<close>

text \<open>
  \<open>bal s d\<close>: read from nesting depth \<open>d\<close>, the text \<open>s\<close> never closes a
  bracket that is not open and ends at depth 0. A document is balanced when
  \<open>bal s 0\<close>.
\<close>

fun bal :: "string \<Rightarrow> nat \<Rightarrow> bool" where
  "bal [] d = (d = 0)"
| "bal (c # cs) d =
     (if c = LB then bal cs (d + 1)
      else if c = RB then (d > 0 \<and> bal cs (d - 1))
      else bal cs d)"

definition balanced :: "string \<Rightarrow> bool" where
  "balanced s = bal s 0"

subsection \<open>Scoring\<close>

record ScoreConfig =
  cfgPeekPenalty :: int
  cfgMegaPeekPenalty :: int
  cfgWrongGuessPenalty :: int
  rankThresholds :: "(string \<times> int) list"

record ScoreDetails =
  baseScore :: int
  peekPenalty :: int
  megaPeekPenalty :: int
  wrongGuessPenalty :: int
  totalPenalty :: int
  finalScore :: int
  rank :: string
  nextRankName :: "string option"
  pointsToNextRank :: int

record Stats =
  guesses :: int
  correctGuesses :: int
  hints :: int
  reveals :: int

text \<open>\<^verbatim>\<open>rankThresholds\<close> lists the entries in the order of the object literal,
  which is the order \<^verbatim>\<open>Object.entries\<close> returns.\<close>

definition getScoreConfig :: ScoreConfig where
  "getScoreConfig =
     \<lparr>cfgPeekPenalty = 5,
      cfgMegaPeekPenalty = 15,
      cfgWrongGuessPenalty = 2,
      rankThresholds =
        [(''Tourist'', 0),
         (''Commuter'', 11),
         (''Resident'', 21),
         (''Council Member'', 31),
         (''Chief of Police'', 51),
         (''Mayor'', 68),
         (''Power Broker'', 79),
         (''Kingmaker'', 91),
         (''Puppet Master'', 100)]\<rparr>"

text \<open>\<^verbatim>\<open>sort((a, b) => b[1] - a[1])\<close> is a stable sort by descending threshold,
  \<^verbatim>\<open>sort((a, b) => a[1] - b[1])\<close> one by ascending threshold.\<close>

definition sortDescending :: "(string \<times> int) list \<Rightarrow> (string \<times> int) list" where
  "sortDescending entries = sort_key (\<lambda>(r, threshold). - threshold) entries"

definition sortAscending :: "(string \<times> int) list \<Rightarrow> (string \<times> int) list" where
  "sortAscending entries = sort_key (\<lambda>(r, threshold). threshold) entries"

definition calculateRank :: "int \<Rightarrow> int \<Rightarrow> int \<Rightarrow> int \<Rightarrow> string" where
  "calculateRank score peekCount megaPeekCount wrongGuessCount =
     (let config = getScoreConfig;
          isPerfect = (score = 100);
          isNoHelp = (peekCount = 0 \<and> megaPeekCount = 0 \<and> wrongGuessCount = 0)
      in if isPerfect \<and> isNoHelp then ''Puppet Master''
         else
           (let ranks = sortDescending (rankThresholds config)
            in case find (\<lambda>(r, threshold). score \<ge> threshold) ranks of
                 Some (r, threshold) \<Rightarrow> r
               | None \<Rightarrow> ''Tourist''))"

text \<open>\<^verbatim>\<open>Array.prototype.findIndex\<close>: the index of the first element that
  satisfies the test, or -1.\<close>

fun findIndex :: "('a \<Rightarrow> bool) \<Rightarrow> 'a list \<Rightarrow> int" where
  "findIndex P [] = - 1"
| "findIndex P (x # xs) =
     (if P x then 0 else (let k = findIndex P xs in if k < 0 then - 1 else k + 1))"

definition calculateScore :: "GameState \<Rightarrow> Stats \<Rightarrow> ScoreDetails" where
  "calculateScore gs stats =
     (let config = getScoreConfig;
          peekCount = max 0 (int (fcard (hintedExpressions gs)));
          megaPeekCount = max 0 (int (fcard (revealedExpressions gs)));
          wrongGuessCount = max 0 (guesses stats - correctGuesses stats);
          peekPen = peekCount * cfgPeekPenalty config;
          megaPeekPen = megaPeekCount * cfgMegaPeekPenalty config;
          wrongGuessPen = wrongGuessCount * cfgWrongGuessPenalty config;
          base = 100;
          totalPen = peekPen + megaPeekPen + wrongGuessPen;
          score = min 100 (max 0 (base - totalPen));
          rnk = calculateRank score peekCount megaPeekCount wrongGuessCount;
          ranks = sortAscending (rankThresholds config);
          currentRankIndex = findIndex (\<lambda>(r, threshold). r = rnk) ranks;
          nextRank = (if currentRankIndex < int (length ranks) - 1
                      then Some (ranks ! nat (currentRankIndex + 1)) else None);
          points = (case nextRank of Some (r, threshold) \<Rightarrow> max 0 (threshold - score)
                    | None \<Rightarrow> 0)
      in \<lparr>baseScore = base,
          peekPenalty = peekPen,
          megaPeekPenalty = megaPeekPen,
          wrongGuessPenalty = wrongGuessPen,
          totalPenalty = totalPen,
          finalScore = score,
          rank = rnk,
          nextRankName = (case nextRank of Some (r, threshold) \<Rightarrow> Some r | None \<Rightarrow> None),
          pointsToNextRank = points\<rparr>)"

subsection \<open>Strings\<close>

text \<open>\<^verbatim>\<open>toLowerCase\<close> and \<^verbatim>\<open>trim\<close> on code units below 256. \<^verbatim>\<open>toLowerCase\<close> folds
  A to Z (65 to 90) and the capital letters U+00C0 to U+00DE other than the
  multiplication sign U+00D7, each to the code unit 32 above it, and leaves
  every other code unit below 256 as it is. \<^verbatim>\<open>trim\<close> removes white space and
  line terminators from both ends: below 256 these are tab, line feed,
  vertical tab, form feed, carriage return (9 to 13), space (32) and the
  no-break space U+00A0 (160).\<close>

definition lowerChar :: "char \<Rightarrow> char" where
  "lowerChar c =
     (let n = (of_char c :: nat)
      in if (65 \<le> n \<and> n \<le> 90) \<or> (192 \<le> n \<and> n \<le> 214) \<or> (216 \<le> n \<and> n \<le> 222)
         then char_of (n + 32) else c)"

definition toLowerCase :: "string \<Rightarrow> string" where
  "toLowerCase s = map lowerChar s"

definition isWhiteSpace :: "char \<Rightarrow> bool" where
  "isWhiteSpace c =
     (let n = (of_char c :: nat) in (9 \<le> n \<and> n \<le> 13) \<or> n = 32 \<or> n = 160)"

definition trim :: "string \<Rightarrow> string" where
  "trim s = rev (dropWhile isWhiteSpace (rev (dropWhile isWhiteSpace s)))"

definition dq :: string where
  "dq = [CHR 0x22]"

subsection \<open>The answer key as a JavaScript object\<close>

text \<open>
  \<^verbatim>\<open>puzzleData.solutions\<close> is a plain object made by \<^verbatim>\<open>JSON.parse\<close>, and the
  actions read it with \<^verbatim>\<open>puzzleData.solutions[expression]\<close>. The value of that
  is the object's own entry when it has one; otherwise the property of that
  name which every plain object inherits from \<^verbatim>\<open>Object.prototype\<close>, when there
  is one; otherwise \<^verbatim>\<open>undefined\<close>. The field \<open>solutions\<close> of \<open>PuzzleData\<close> holds
  the own entries.

  The inherited properties are functions, and \<^verbatim>\<open>__proto__\<close> is the prototype
  object itself: none is a string, and all are truthy. \<open>Inherited t\<close> is such
  a value, \<open>t\<close> being the text that string concatenation makes of it (for a
  function, \<^verbatim>\<open>function name() { [native code] }\<close>, where the white space is
  the engine's choice).
\<close>

datatype JSValue = Undefined | Str string | Inherited string

definition nativeFunction :: "string \<Rightarrow> string" where
  "nativeFunction name = ''function '' @ name @ ''() { [native code] }''"

definition objectPrototype :: "(string \<times> string) list" where
  "objectPrototype =
     [(''constructor'', nativeFunction ''Object''),
      (''__defineGetter__'', nativeFunction ''__defineGetter__''),
      (''__defineSetter__'', nativeFunction ''__defineSetter__''),
      (''hasOwnProperty'', nativeFunction ''hasOwnProperty''),
      (''__lookupGetter__'', nativeFunction ''__lookupGetter__''),
      (''__lookupSetter__'', nativeFunction ''__lookupSetter__''),
      (''isPrototypeOf'', nativeFunction ''isPrototypeOf''),
      (''propertyIsEnumerable'', nativeFunction ''propertyIsEnumerable''),
      (''toString'', nativeFunction ''toString''),
      (''valueOf'', nativeFunction ''valueOf''),
      (''__proto__'', ''[object Object]''),
      (''toLocaleString'', nativeFunction ''toLocaleString'')]"

definition getProperty :: "(string \<rightharpoonup> string) \<Rightarrow> string \<Rightarrow> JSValue" where
  "getProperty obj key =
     (case obj key of
        Some s \<Rightarrow> Str s
      | None \<Rightarrow>
          (case map_of objectPrototype key of
             Some t \<Rightarrow> Inherited t
           | None \<Rightarrow> Undefined))"

text \<open>The truth value of a value in a condition, and the string that string
  concatenation and template literals make of it.\<close>

fun truthy :: "JSValue \<Rightarrow> bool" where
  "truthy Undefined = False"
| "truthy (Str s) = (s \<noteq> [])"
| "truthy (Inherited t) = True"

fun toText :: "JSValue \<Rightarrow> string" where
  "toText Undefined = ''undefined''"
| "toText (Str s) = s"
| "toText (Inherited t) = t"

subsection \<open>The three actions\<close>

text \<open>One record for the three result shapes of the source: \<open>hint\<close> and
  \<open>solution\<close> are the optional properties \<^verbatim>\<open>hint?\<close> and \<^verbatim>\<open>solution?\<close>,
  \<^term>\<open>None\<close> when the returned object does not have them. Calling a string
  method on a value that is not a string throws a \<^verbatim>\<open>TypeError\<close>; an action
  that throws returns \<open>Inl TypeError\<close>, one that returns an outcome \<open>r\<close>
  returns \<open>Inr r\<close>.\<close>

datatype error = TypeError

record ActionResult =
  success :: bool
  hint :: "string option"
  solution :: "JSValue option"
  message :: string
  gameState :: GameState

text \<open>The \<^verbatim>\<open>for (const expr of availableExpressions)\<close> loop of \<^verbatim>\<open>makeGuess\<close>:
  \<open>Inr (Some r)\<close> for the result \<open>r\<close> returned from inside the loop, \<open>Inr None\<close>
  when the loop runs to its end. In \<^verbatim>\<open>solution && guess.toLowerCase().trim()
  === solution.toLowerCase().trim()\<close> the right operand is evaluated only for
  a truthy \<^verbatim>\<open>solution\<close>: not for a missing entry or the empty string, and for
  an inherited value \<^verbatim>\<open>solution.toLowerCase\<close> is not a function.\<close>

fun guessLoop ::
  "Expression list \<Rightarrow> string \<Rightarrow> GameState \<Rightarrow> PuzzleData \<Rightarrow> error + ActionResult option" where
  "guessLoop [] guess gs puzzleData = Inr None"
| "guessLoop (expr # exprs) guess gs puzzleData =
     (let currentExpression = expression expr in
      case getProperty (solutions puzzleData) currentExpression of
        Undefined \<Rightarrow> guessLoop exprs guess gs puzzleData
      | Inherited t \<Rightarrow> Inl TypeError
      | Str sol \<Rightarrow>
          if sol \<noteq> [] \<and> trim (toLowerCase guess) = trim (toLowerCase sol) then
            (let newDisplayState =
                   take (startIndex expr) (displayState gs) @ sol
                     @ drop (endIndex expr) (displayState gs);
                 updatedGameState =
                   gs\<lparr>displayState := newDisplayState,
                      solvedExpressions := finsert currentExpression (solvedExpressions gs),
                      activeClues := findActiveClues newDisplayState\<rparr>
             in Inr (Some \<lparr>success = True, hint = None, solution = None,
                       message = ''Correct! '' @ dq @ currentExpression @ dq @ '' = ''
                                   @ dq @ sol @ dq,
                       gameState = updatedGameState\<rparr>))
          else guessLoop exprs guess gs puzzleData)"

definition noActiveClue :: "string \<Rightarrow> GameState \<Rightarrow> ActionResult" where
  "noActiveClue expr gs =
     \<lparr>success = False, hint = None, solution = None,
      message = ''No active bracketed clue found for '' @ dq @ expr @ dq @ ''.'',
      gameState = gs\<rparr>"

definition noSolutionFound :: "string \<Rightarrow> GameState \<Rightarrow> ActionResult" where
  "noSolutionFound expr gs =
     \<lparr>success = False, hint = None, solution = None,
      message = ''No solution found for clue '' @ dq @ expr @ dq @ ''.'',
      gameState = gs\<rparr>"

definition makeGuess :: "string \<Rightarrow> string \<Rightarrow> GameState \<Rightarrow> PuzzleData \<Rightarrow> error + ActionResult" where
  "makeGuess expr guess gs puzzleData =
     (let availableExpressions = findAvailableExpressions gs in
      case guessLoop availableExpressions guess gs puzzleData of
        Inl e \<Rightarrow> Inl e
      | Inr (Some result) \<Rightarrow> Inr result
      | Inr None \<Rightarrow>
          (case find (\<lambda>e. expression e = expr) availableExpressions of
             Some targetExpression \<Rightarrow>
               if truthy (getProperty (solutions puzzleData) expr) then
                 Inr \<lparr>success = False, hint = None, solution = None,
                      message = ''Incorrect guess '' @ dq @ guess @ dq @ '' for ''
                                  @ dq @ expr @ dq @ ''.'',
                      gameState = gs\<rparr>
               else Inr (noActiveClue expr gs)
           | None \<Rightarrow> Inr (noActiveClue expr gs)))"

text \<open>In \<^verbatim>\<open>getHint\<close>, \<^verbatim>\<open>solution.charAt(0)\<close> is reached for a truthy
  \<^verbatim>\<open>solution\<close>; for an inherited value \<^verbatim>\<open>solution.charAt\<close> is not a function.\<close>

definition getHint :: "string \<Rightarrow> GameState \<Rightarrow> PuzzleData \<Rightarrow> error + ActionResult" where
  "getHint expr gs puzzleData =
     (let availableExpressions = findAvailableExpressions gs in
      case find (\<lambda>e. expression e = expr) availableExpressions of
        None \<Rightarrow> Inr (noActiveClue expr gs)
      | Some targetExpression \<Rightarrow>
          (case getProperty (solutions puzzleData) expr of
             Undefined \<Rightarrow> Inr (noSolutionFound expr gs)
           | Inherited t \<Rightarrow> Inl TypeError
           | Str sol \<Rightarrow>
               if sol = [] then Inr (noSolutionFound expr gs)
               else
                 (let firstLetter = take 1 sol;
                      updatedGameState =
                        gs\<lparr>hintedExpressions := finsert expr (hintedExpressions gs)\<rparr>
                  in Inr \<lparr>success = True, hint = Some firstLetter, solution = None,
                      message = ''Hint for '' @ dq @ expr @ dq
                                  @ '': The answer begins with '' @ dq @ firstLetter @ dq @ ''.'',
                      gameState = updatedGameState\<rparr>)))"

text \<open>\<^verbatim>\<open>revealClue\<close> calls no method of \<^verbatim>\<open>solution\<close>: it tests its truth value
  and concatenates it, so it throws for no value and returns an outcome
  always.\<close>

definition revealClue :: "string \<Rightarrow> GameState \<Rightarrow> PuzzleData \<Rightarrow> ActionResult" where
  "revealClue expr gs puzzleData =
     (let availableExpressions = findAvailableExpressions gs in
      case find (\<lambda>e. expression e = expr) availableExpressions of
        None \<Rightarrow> noActiveClue expr gs
      | Some targetExpression \<Rightarrow>
          (let sol = getProperty (solutions puzzleData) expr in
           if \<not> truthy sol then noSolutionFound expr gs
           else
             (let newDisplayState =
                    take (startIndex targetExpression) (displayState gs) @ toText sol
                      @ drop (endIndex targetExpression) (displayState gs);
                  updatedGameState =
                    gs\<lparr>displayState := newDisplayState,
                       solvedExpressions := finsert expr (solvedExpressions gs),
                       revealedExpressions := finsert expr (revealedExpressions gs),
                       activeClues := findActiveClues newDisplayState\<rparr>
              in \<lparr>success = True, hint = None, solution = Some sol,
                  message = ''Revealed answer for '' @ dq @ expr @ dq @ '': ''
                              @ dq @ toText sol @ dq,
                  gameState = updatedGameState\<rparr>)))"

subsection \<open>The run\<close>

definition initializeGameState :: "PuzzleData \<Rightarrow> GameState" where
  "initializeGameState puzzleData =
     \<lparr>displayState = initialPuzzle puzzleData,
      solvedExpressions = {||},
      hintedExpressions = {||},
      revealedExpressions = {||},
      activeClues = findActiveClues (initialPuzzle puzzleData),
      totalClues = card (dom (solutions puzzleData))\<rparr>"

text \<open>
  \<^verbatim>\<open>solvePuzzleWithLLM\<close> hands three tools to the language model, which calls
  them in some order of its own choosing. The model's side of the run is the
  list of its tool calls; the mutable locals \<^verbatim>\<open>gameState\<close>, \<^verbatim>\<open>stats\<close> and
  \<^verbatim>\<open>completedPuzzle\<close> that the tools' \<^verbatim>\<open>execute\<close> functions update are a
  \<open>RunState\<close>. An error thrown by a tool ends the run: \<^verbatim>\<open>generateText\<close> throws
  it on, and the \<^verbatim>\<open>catch\<close> block of \<^verbatim>\<open>solvePuzzleWithLLM\<close> throws it again.
  The token usage, the step count, the time-stamped guess log, the final text
  and the completion percentage (a floating-point quotient) are left out.
\<close>

datatype ToolCall =
    MakeGuessCall string string
  | GetHintCall string
  | RevealClueCall string

record RunState =
  curGameState :: GameState
  curStats :: Stats
  completedPuzzle :: bool

fun executeTool :: "PuzzleData \<Rightarrow> RunState \<Rightarrow> ToolCall \<Rightarrow> error + RunState" where
  "executeTool puzzleData st (MakeGuessCall clue guess) =
     (let stats1 = (curStats st)\<lparr>guesses := guesses (curStats st) + 1\<rparr> in
      case makeGuess clue guess (curGameState st) puzzleData of
        Inl e \<Rightarrow> Inl e
      | Inr result \<Rightarrow>
          (let cluesRemaining = length (findActiveClues (displayState (gameState result)));
               st1 = st\<lparr>curStats := stats1, curGameState := gameState result\<rparr>
           in if success result then
                (let st2 = st1\<lparr>curStats := stats1\<lparr>correctGuesses := correctGuesses stats1 + 1\<rparr>\<rparr>
                 in if cluesRemaining = 0 then Inr (st2\<lparr>completedPuzzle := True\<rparr>) else Inr st2)
              else Inr st1))"
| "executeTool puzzleData st (GetHintCall clue) =
     (case getHint clue (curGameState st) puzzleData of
        Inl e \<Rightarrow> Inl e
      | Inr result \<Rightarrow>
          if success result then
            Inr (st\<lparr>curStats := (curStats st)\<lparr>hints := hints (curStats st) + 1\<rparr>,
                    curGameState := gameState result\<rparr>)
          else Inr st)"
| "executeTool puzzleData st (RevealClueCall clue) =
     (let result = revealClue clue (curGameState st) puzzleData;
          cluesRemaining = length (findActiveClues (displayState (gameState result)))
      in if success result then
           (let st1 = st\<lparr>curStats := (curStats st)\<lparr>reveals := reveals (curStats st) + 1\<rparr>,
                         curGameState := gameState result\<rparr>
            in if cluesRemaining = 0 then Inr (st1\<lparr>completedPuzzle := True\<rparr>) else Inr st1)
         else Inr st)"

fun runCalls :: "PuzzleData \<Rightarrow> RunState \<Rightarrow> ToolCall list \<Rightarrow> error + RunState" where
  "runCalls puzzleData st [] = Inr st"
| "runCalls puzzleData st (call # calls) =
     (case executeTool puzzleData st call of
        Inl e \<Rightarrow> Inl e
      | Inr st' \<Rightarrow> runCalls puzzleData st' calls)"

definition runTools :: "PuzzleData \<Rightarrow> ToolCall list \<Rightarrow> error + RunState" where
  "runTools puzzleData calls =
     runCalls puzzleData
       \<lparr>curGameState = initializeGameState puzzleData,
        curStats = \<lparr>guesses = 0, correctGuesses = 0, hints = 0, reveals = 0\<rparr>,
        completedPuzzle = False\<rparr>
       calls"

record RunResult =
  resSuccess :: bool
  resStats :: Stats
  resScore :: int
  resRank :: string
  resScoreDetails :: ScoreDetails

text \<open>What \<^verbatim>\<open>solvePuzzleWithLLM\<close> returns when \<^verbatim>\<open>generateText\<close> returns. After
  the tool calls, \<^verbatim>\<open>completedPuzzle\<close> is set anew from
  \<^verbatim>\<open>findAvailableExpressions\<close>.\<close>

definition solvePuzzleWithLLM :: "PuzzleData \<Rightarrow> ToolCall list \<Rightarrow> error + RunResult" where
  "solvePuzzleWithLLM puzzleData calls =
     (case runTools puzzleData calls of
        Inl e \<Rightarrow> Inl e
      | Inr st \<Rightarrow>
          (let finalAvailableClues = findAvailableExpressions (curGameState st);
               completed = (length finalAvailableClues = 0);
               details = calculateScore (curGameState st) (curStats st);
               score = (if completed then finalScore details else 0);
               rnk = (if completed then rank details else ''Tourist'')
           in Inr \<lparr>resSuccess = completed,
                   resStats = curStats st,
                   resScore = score,
                   resRank = rnk,
                   resScoreDetails = details\<lparr>finalScore := score\<rparr>\<rparr>))"

subsection \<open>Comparing the two scanners\<close>

text \<open>What a clue of either scanner says about the document: the expression and
  the window \<open>[start, end)\<close>.\<close>

definition clueWindow :: "Clue \<Rightarrow> string \<times> nat \<times> nat" where
  "clueWindow c = (clueExpression c, start c, endPos c)"

definition expressionWindow :: "Expression \<Rightarrow> string \<times> nat \<times> nat" where
  "expressionWindow e = (expression e, startIndex e, endIndex e)"

subsection \<open>Predicates used to state the claims\<close>

text \<open>\<open>windowOf s off c\<close>: the clue \<open>c\<close>, with offsets counted from \<open>off\<close>, is a
  non-empty window of the text \<open>s\<close> that begins with an opening bracket, and
  its raw text is that window.\<close>

definition windowOf :: "string \<Rightarrow> nat \<Rightarrow> Clue \<Rightarrow> bool" where
  "windowOf s off c =
     (off \<le> start c \<and> start c < endPos c \<and> endPos c \<le> off + length s
      \<and> rawText c = take (endPos c - start c) (drop (start c - off) s)
      \<and> hd (rawText c) = LB)"

text \<open>\<open>guessMatches puzzleData guess x\<close>: the answer key has a non-empty entry of
  its own for the expression of \<open>x\<close>, and the guess equals it once both are
  lower-cased and trimmed.\<close>

definition guessMatches :: "PuzzleData \<Rightarrow> string \<Rightarrow> Expression \<Rightarrow> bool" where
  "guessMatches puzzleData guess x =
     (case solutions puzzleData (expression x) of
        None \<Rightarrow> False
      | Some sol \<Rightarrow> sol \<noteq> [] \<and> trim (toLowerCase guess) = trim (toLowerCase sol))"

text \<open>\<open>inheritedName key e\<close>: the answer key has no entry of its own for \<open>e\<close>, and
  \<open>e\<close> is the name of a property that every plain object inherits.\<close>

definition inheritedName :: "(string \<rightharpoonup> string) \<Rightarrow> string \<Rightarrow> bool" where
  "inheritedName key e = (key e = None \<and> map_of objectPrototype e \<noteq> None)"

subsection \<open>Example inputs\<close>

text \<open>A fresh state on a document, and a puzzle with a document and an answer key.\<close>

definition exState :: "string \<Rightarrow> GameState" where
  "exState doc =
     \<lparr>displayState = doc, solvedExpressions = {||}, hintedExpressions = {||},
      revealedExpressions = {||}, activeClues = findActiveClues doc, totalClues = 1\<rparr>"

definition exPuzzle :: "string \<Rightarrow> (string \<rightharpoonup> string) \<Rightarrow> PuzzleData" where
  "exPuzzle doc key =
     \<lparr>completionText = [], puzzleDate = [], completionURL = [],
      solutions = key, initialPuzzle = doc, puzzleSolution = []\<rparr>"

section \<open>Properties of the scanners\<close>

text \<open>The start indices that \<open>regexLoop\<close> has pushed are all to the left of the
  position it scans from, so the test against \<open>matchedPositions\<close> never fails.\<close>

lemma regexLoop_matched:
  "(\<forall>p. p |\<in>| m \<longrightarrow> p < idx) \<Longrightarrow> regexLoop s idx m = regexLoop s idx {||}"
proof (induction "length s" arbitrary: s idx m rule: less_induct)
  case less
  show ?case
  proof (cases s)
    case Nil
    then show ?thesis by simp
  next
    case (Cons c cs)
    have step: "regexLoop cs (Suc idx) m = regexLoop cs (Suc idx) {||}"
      using less.hyps [of cs m "Suc idx"] less.prems Cons by (simp add: less_Suc_eq)
    show ?thesis
    proof (cases "dropWhile notBracket cs")
      case dn: Nil
      show ?thesis using Cons step by (simp add: dn)
    next
      case dc: (Cons d rest)
      have len: "length rest < length s"
        using length_dropWhile_le [of notBracket cs] dc Cons by simp
      have a: "regexLoop rest (idx + (length (takeWhile notBracket cs) + 2)) (finsert idx m)
          = regexLoop rest (idx + (length (takeWhile notBracket cs) + 2)) {||}"
        by (rule less.hyps [OF len]) (use less.prems in \<open>auto simp: less_Suc_eq\<close>)
      have b: "regexLoop rest (idx + (length (takeWhile notBracket cs) + 2)) {|idx|}
          = regexLoop rest (idx + (length (takeWhile notBracket cs) + 2)) {||}"
        by (rule less.hyps [OF len]) simp
      have c: "idx |\<notin>| m" using less.prems by auto
      show ?thesis
        using Cons step a b c by (simp add: Let_def dc)
    qed
  qed
qed

lemma bal_dropWhile: "bal (dropWhile notBracket cs) d = bal cs d"
  by (induction cs) (auto simp: notBracket_def)

lemma bal_Suc_dropWhile: "bal cs (Suc d) \<Longrightarrow> dropWhile notBracket cs \<noteq> []"
  by (induction cs) (auto simp: notBracket_def split: if_splits)

lemma regexLoop_bal_append:
  "bal xs d \<Longrightarrow> regexLoop (xs @ ys) idx {||} = regexLoop xs idx {||} @ regexLoop ys (idx + length xs) {||}"
proof (induction "length xs" arbitrary: xs d idx rule: less_induct)
  case less
  show ?case
  proof (cases xs)
    case Nil
    then show ?thesis by simp
  next
    case (Cons c cs)
    show ?thesis
    proof (cases "c = LB")
      case False
      then obtain d' where "bal cs d'" using less.prems Cons by (auto split: if_splits)
      from less.hyps [OF _ this, of "Suc idx"] show ?thesis using Cons False by simp
    next
      case True
      then have bcs: "bal cs (Suc d)" using less.prems Cons by simp
      have step: "regexLoop (cs @ ys) (Suc idx) {||}
           = regexLoop cs (Suc idx) {||} @ regexLoop ys (idx + length xs) {||}"
        using less.hyps [OF _ bcs, of "Suc idx"] Cons by simp
      obtain x r where dw: "dropWhile notBracket cs = x # r"
        using bal_Suc_dropWhile [OF bcs] by (cases "dropWhile notBracket cs") auto
      then obtain y where ex: "y \<in> set cs" "\<not> notBracket y"
        by (metis dropWhile_eq_Nil_conv list.distinct(1))
      have tw: "takeWhile notBracket (cs @ ys) = takeWhile notBracket cs"
        using ex by (rule takeWhile_append1)
      have dwa: "dropWhile notBracket (cs @ ys) = x # (r @ ys)"
        using dropWhile_append1 [of y cs notBracket ys] ex dw by simp
      show ?thesis
      proof (cases "takeWhile notBracket cs \<noteq> [] \<and> x = RB")
        case False
        then show ?thesis using Cons True step by (auto simp: Let_def dw dwa tw)
      next
        case m: True
        have "bal (x # r) (Suc d)" using bal_dropWhile [of cs "Suc d"] bcs dw by simp
        then have br: "bal r d" using m by simp
        have lr: "length r < length xs"
          using length_dropWhile_le [of notBracket cs] dw Cons by simp
        have lens: "length cs = length (takeWhile notBracket cs) + Suc (length r)"
          using arg_cong [OF takeWhile_dropWhile_id [of notBracket cs], of length] dw
          by (simp del: takeWhile_dropWhile_id)
        have mt: "regexLoop r e {|idx|} = regexLoop r e {||}"
          if "idx < e" for e using regexLoop_matched [of "{|idx|}" e r] that by simp
        have mt2: "regexLoop (r @ ys) e {|idx|} = regexLoop (r @ ys) e {||}"
          if "idx < e" for e using regexLoop_matched [of "{|idx|}" e "r @ ys"] that by simp
        show ?thesis
          using Cons True m less.hyps [OF lr br] lens
          by (simp add: Let_def dw dwa tw mt mt2 add.commute add.left_commute)
      qed
    qed
  qed
qed


lemma scanBracket_bal:
  "n > 0 \<Longrightarrow> bal cs (n + e) \<Longrightarrow>
   \<exists>body rest. cs = body @ RB # rest \<and> bal body (n - 1) \<and> bal rest e \<and>
     scanBracket cs n b acc = (acc @ body @ [RB], b \<or> LB \<in> set body, rest)"
proof (induction cs arbitrary: n b acc)
  case Nil
  then show ?case by simp
next
  case (Cons c cs)
  show ?case
  proof (cases "c = LB")
    case True
    with Cons.prems have "bal cs (Suc n + e)" by simp
    from Cons.IH [OF _ this, of True "acc @ [c]"]
    obtain body rest where "cs = body @ RB # rest" "bal body n" "bal rest e"
      "scanBracket cs (Suc n) True (acc @ [c]) = ((acc @ [c]) @ body @ [RB], True, rest)"
      by auto
    then show ?thesis using True Cons.prems(1)
      by (intro exI [of _ "LB # body"] exI [of _ rest]) simp
  next
    case nl: False
    show ?thesis
    proof (cases "c = RB")
      case True
      show ?thesis
      proof (cases "n = 1")
        case True
        then have "bal cs e" using Cons.prems \<open>c = RB\<close> by simp
        moreover have "scanBracket cs 0 b (acc @ [c]) = (acc @ [c], b, cs)"
          by (cases cs) auto
        ultimately show ?thesis using True \<open>c = RB\<close>
          by (intro exI [of _ "[]"] exI [of _ cs]) simp
      next
        case False
        then have n1: "n - 1 > 0" using Cons.prems(1) by simp
        have "bal cs ((n - 1) + e)" using Cons.prems \<open>c = RB\<close> by simp
        from Cons.IH [OF n1 this, of b "acc @ [c]"]
        obtain body rest where "cs = body @ RB # rest" "bal body (n - 1 - 1)" "bal rest e"
          "scanBracket cs (n - 1) b (acc @ [c]) = ((acc @ [c]) @ body @ [RB], b \<or> LB \<in> set body, rest)"
          by auto
        then show ?thesis using \<open>c = RB\<close> Cons.prems(1) n1
          by (intro exI [of _ "RB # body"] exI [of _ rest]) simp
      qed
    next
      case False
      with nl Cons.prems have "bal cs (n + e)" by simp
      from Cons.IH [OF Cons.prems(1) this, of b "acc @ [c]"]
      obtain body rest where "cs = body @ RB # rest" "bal body (n - 1)" "bal rest e"
        "scanBracket cs n b (acc @ [c]) = ((acc @ [c]) @ body @ [RB], b \<or> LB \<in> set body, rest)"
        by auto
      then show ?thesis using nl False Cons.prems(1)
        by (intro exI [of _ "c # body"] exI [of _ rest]) auto
    qed
  qed
qed

lemma bal0_no_LB: "bal xs 0 \<Longrightarrow> LB \<notin> set xs \<Longrightarrow> \<forall>c\<in>set xs. notBracket c"
  by (induction xs) (auto simp: notBracket_def split: if_splits)

lemma bal0_first_bracket:
  "bal xs 0 \<Longrightarrow> dropWhile notBracket xs = x # r \<Longrightarrow> x = LB"
  by (induction xs) (auto simp: notBracket_def split: if_splits)

text \<open>On a balanced text the regular-expression scanner finds the clues of the
  recursive parser that have a non-empty expression, window by window.\<close>

lemma findClues_regexLoop:
  "bal s 0 \<Longrightarrow>
   map clueWindow (filter (\<lambda>c. clueExpression c \<noteq> []) (findClues s off))
     = map expressionWindow (regexLoop s off {||})"
proof (induction s off rule: findClues.induct)
  case (1 off)
  then show ?case by simp
next
  case (2 c cs off)
  show ?case
  proof (cases "c = LB")
    case False
    then have "c \<noteq> RB" "bal cs 0" using "2.prems" by (auto split: if_splits)
    then show ?thesis using False "2.IH"(3) by simp
  next
    case True
    then have "bal cs (1 + 0)" using "2.prems" by simp
    from scanBracket_bal [OF _ this, of False "[]"]
    obtain body rest where cs: "cs = body @ RB # rest" and bb: "bal body 0" and br: "bal rest 0"
      and sc: "scanBracket cs 1 False [] = (body @ [RB], LB \<in> set body, rest)"
      by auto
    have mt: "regexLoop r e {|off|} = regexLoop r e {||}"
      if "off < e" for e r using regexLoop_matched [of "{|off|}" e r] that by simp
    have sc': "scanBracket cs (Suc 0) False [] = (body @ [RB], LB \<in> set body, rest)"
      using sc by simp
    have fc: "findClues (c # cs) off =
        (if LB \<notin> set body
         then [\<lparr>start = off, endPos = off + 1 + length (body @ [RB]), rawText = c # body @ [RB],
                clueExpression = body\<rparr>]
         else findClues body (off + 1)) @ findClues rest (off + 1 + length (body @ [RB]))"
      using True by (simp add: sc' Let_def)
    have IHrest: "map clueWindow (filter (\<lambda>c. clueExpression c \<noteq> [])
          (findClues rest (off + 1 + length (body @ [RB]))))
        = map expressionWindow (regexLoop rest (off + 1 + length (body @ [RB])) {||})"
      using "2.IH"(2) [OF True sc [symmetric] refl refl refl br] .
    show ?thesis
    proof (cases "LB \<in> set body")
      case nested: True
      have IHbody: "map clueWindow (filter (\<lambda>c. clueExpression c \<noteq> [])
          (findClues body (off + 1)))
        = map expressionWindow (regexLoop body (off + 1) {||})"
        using "2.IH"(1) [OF True sc [symmetric] refl _ refl _ bb] nested by simp
      obtain x r where dw: "dropWhile notBracket body = x # r"
        using nested by (cases "dropWhile notBracket body") (auto simp: notBracket_def)
      then have x: "x = LB" using bal0_first_bracket [OF bb] by simp
      obtain y where ex: "y \<in> set body" "\<not> notBracket y"
        using nested by (auto simp: notBracket_def)
      have dwa: "dropWhile notBracket cs = x # (r @ RB # rest)"
        using dropWhile_append1 [of y body notBracket "RB # rest"] ex dw cs by simp
      have "regexLoop (c # cs) off {||} = regexLoop cs (off + 1) {||}"
        using True x by (simp add: dwa Let_def)
      also have "\<dots> = regexLoop body (off + 1) {||} @ regexLoop (RB # rest) (off + 1 + length body) {||}"
        unfolding cs by (rule regexLoop_bal_append [OF bb])
      finally have "regexLoop (c # cs) off {||}
          = regexLoop body (off + 1) {||} @ regexLoop rest (off + 1 + length (body @ [RB])) {||}"
        by simp
      then show ?thesis unfolding fc using nested IHbody IHrest by simp
    next
      case flat: False
      have nb: "\<forall>c\<in>set body. notBracket c" using bal0_no_LB [OF bb flat] .
      have tw: "takeWhile notBracket cs = body"
        unfolding cs using nb by (simp add: takeWhile_append2 notBracket_def)
      have dw: "dropWhile notBracket cs = RB # rest"
        unfolding cs using nb by (simp add: dropWhile_append2 notBracket_def)
      show ?thesis
      proof (cases "body = []")
        case True
        then have "regexLoop cs (Suc off) {||} = regexLoop rest (Suc (Suc off)) {||}"
          using cs by simp
        then show ?thesis unfolding fc using \<open>c = LB\<close> \<open>body = []\<close> flat IHrest
          by (simp add: Let_def tw dw)
      next
        case False
        have w: "clueWindow \<lparr>start = a, endPos = b, rawText = t, clueExpression = x\<rparr>
            = expressionWindow \<lparr>expression = x, startIndex = a, endIndex = b\<rparr>" for a b t x
          by (simp add: clueWindow_def expressionWindow_def)
        from False show ?thesis unfolding fc using \<open>c = LB\<close> flat IHrest
          by (simp add: Let_def tw dw w mt)
      qed
    qed
  qed
qed

text \<open>The recursive parser: the inner loop splits the text it reads, and every
  clue is a window of the text.\<close>

lemma scanBracket_split:
  "\<exists>inner. fst (scanBracket cs n b acc) = acc @ inner
      \<and> cs = inner @ snd (snd (scanBracket cs n b acc))"
proof (induction cs arbitrary: n b acc)
  case Nil
  show ?case by simp
next
  case (Cons c cs)
  show ?case
  proof (cases "n > 0")
    case False
    then show ?thesis by simp
  next
    case True
    define n' where "n' = (if c = LB then n + 1 else if c = RB then n - 1 else n)"
    define b' where "b' = (if c = LB then True else b)"
    have step: "scanBracket (c # cs) n b acc = scanBracket cs n' b' (acc @ [c])"
      using True by (simp add: n'_def b'_def)
    from Cons.IH [of n' b' "acc @ [c]"] obtain inner where
      "fst (scanBracket cs n' b' (acc @ [c])) = (acc @ [c]) @ inner"
      "cs = inner @ snd (snd (scanBracket cs n' b' (acc @ [c])))"
      by blast
    then show ?thesis unfolding step by (intro exI [of _ "c # inner"]) simp
  qed
qed

lemma windowOf_embed:
  assumes "windowOf B (off + length A) c"
  shows "windowOf (A @ B @ X) off c"
proof -
  let ?k = "start c - (off + length A)"
  let ?n = "endPos c - start c"
  from assms have le: "off + length A \<le> start c" "start c < endPos c"
    "endPos c \<le> off + length A + length B"
    and rt: "rawText c = take ?n (drop ?k B)" and hd: "hd (rawText c) = LB"
    by (auto simp: windowOf_def)
  have k: "start c - off = length A + ?k" using le by arith
  have fit: "?n \<le> length B - ?k" using le by arith
  have "take ?n (drop (start c - off) (A @ B @ X)) = take ?n (drop ?k (B @ X))"
    unfolding k by (simp add: drop_append)
  also have "\<dots> = take ?n (drop ?k B)"
    using fit by (simp add: drop_append)
  finally have "rawText c = take ?n (drop (start c - off) (A @ B @ X))"
    using rt by simp
  then show ?thesis using le hd by (simp add: windowOf_def)
qed

lemma findClues_windowOf:
  "c \<in> set (findClues s off) \<Longrightarrow> windowOf s off c"
proof (induction s off arbitrary: c rule: findClues.induct)
  case (1 off)
  then show ?case by simp
next
  case (2 x xs off)
  show ?case
  proof (cases "x = LB")
    case False
    then have "c \<in> set (findClues xs (off + 1))" using "2.prems" by simp
    then have "windowOf xs (off + length [x]) c" using "2.IH"(3) [OF False] by simp
    from windowOf_embed [OF this, of "[]"] show ?thesis by simp
  next
    case True
    obtain inner nested rest where sc: "scanBracket xs 1 False [] = (inner, nested, rest)"
      by (cases "scanBracket xs 1 False []") auto
    have xs: "xs = inner @ rest"
      using scanBracket_split [of xs 1 False "[]"] sc by simp
    have sc': "scanBracket xs (Suc 0) False [] = (inner, nested, rest)" using sc by simp
    have fc: "findClues (x # xs) off =
        (if \<not> nested
         then [\<lparr>start = off, endPos = off + 1 + length inner, rawText = x # inner,
                clueExpression = butlast inner\<rparr>]
         else findClues (butlast inner) (off + 1)) @ findClues rest (off + 1 + length inner)"
      using True by (simp add: sc' Let_def)
    consider (own) "\<not> nested" "c = \<lparr>start = off, endPos = off + 1 + length inner, rawText = x # inner,
                clueExpression = butlast inner\<rparr>"
      | (inside) "nested" "c \<in> set (findClues (butlast inner) (off + 1))"
      | (after) "c \<in> set (findClues rest (off + 1 + length inner))"
      using "2.prems" unfolding fc by (auto split: if_splits)
    then show ?thesis
    proof cases
      case own
      then show ?thesis using True xs by (simp add: windowOf_def)
    next
      case inside
      have "windowOf (butlast inner) (off + 1) c"
        using "2.IH"(1) [OF True sc [symmetric] refl refl refl _ inside(2)] inside(1) by simp
      then have w: "windowOf (butlast inner) (off + length [x]) c" by simp
      have ne: "inner \<noteq> []" using inside(2) by (cases inner) auto
      have "x # xs = [x] @ butlast inner @ (last inner # rest)"
        using xs ne by simp
      then show ?thesis using windowOf_embed [OF w, of "last inner # rest"] by simp
    next
      case after
      have "windowOf rest (off + 1 + length inner) c"
        using "2.IH"(2) [OF True sc [symmetric] refl refl refl after] .
      then have w: "windowOf rest (off + length (x # inner)) c" by simp
      show ?thesis using windowOf_embed [OF w, of "[]"] xs by simp
    qed
  qed
qed

lemma findClues_no_opening: "LB \<notin> set s \<Longrightarrow> findClues s off = []"
  by (induction s arbitrary: off) auto

text \<open>Every clue of the regular-expression scanner is a bracketed span of the
  text.\<close>

lemma regexLoop_span:
  "x \<in> set (regexLoop s idx m) \<Longrightarrow>
   idx \<le> startIndex x \<and> endIndex x = startIndex x + length (expression x) + 2 \<and>
   drop (startIndex x - idx) s = LB # expression x @ RB # drop (endIndex x - idx) s"
proof (induction "length s" arbitrary: s idx m rule: less_induct)
  case less
  show ?case
  proof (cases s)
    case Nil
    then show ?thesis using less.prems by simp
  next
    case (Cons c cs)
    have skip: ?thesis if "x \<in> set (regexLoop cs (Suc idx) m)"
    proof -
      have "Suc idx \<le> startIndex x \<and> endIndex x = startIndex x + length (expression x) + 2 \<and>
        drop (startIndex x - Suc idx) cs = LB # expression x @ RB # drop (endIndex x - Suc idx) cs"
        by (rule less.hyps [OF _ that]) (simp add: Cons)
      then show ?thesis using Cons by (auto simp: Suc_diff_le drop_Cons')
    qed
    show ?thesis
    proof (cases "c = LB")
      case False
      then show ?thesis using less.prems Cons skip by simp
    next
      case True
      show ?thesis
      proof (cases "dropWhile notBracket cs")
        case dn: Nil
        show ?thesis using less.prems Cons True skip by (simp add: dn)
      next
        case dc: (Cons d rest)
        let ?g = "takeWhile notBracket cs"
        show ?thesis
        proof (cases "?g \<noteq> [] \<and> d = RB")
          case False
          then show ?thesis using less.prems Cons True skip by (auto simp: dc Let_def)
        next
          case mt: True
          have csplit: "cs = ?g @ RB # rest"
            using takeWhile_dropWhile_id [of notBracket cs] dc mt by simp
          have lr: "length rest < length s"
            using length_dropWhile_le [of notBracket cs] dc Cons by simp
          let ?e = "idx + (length ?g + 2)"
          consider (here) "x = \<lparr>expression = ?g, startIndex = idx, endIndex = ?e\<rparr>"
            | (later) m' where "x \<in> set (regexLoop rest ?e m')"
            using less.prems Cons True mt by (auto simp: dc Let_def split: if_splits)
          then show ?thesis
          proof cases
            case here
            have "s = LB # ?g @ RB # rest" using Cons True csplit by simp
            then have "drop 0 s = LB # ?g @ RB # drop (length ?g + 2) s" by simp
            then show ?thesis using here by simp
          next
            case later
            have ih: "?e \<le> startIndex x \<and> endIndex x = startIndex x + length (expression x) + 2 \<and>
              drop (startIndex x - ?e) rest = LB # expression x @ RB # drop (endIndex x - ?e) rest"
              by (rule less.hyps [OF lr later])
            have dr: "drop (k + (length ?g + 2)) s = drop k rest" for k
            proof -
              have "s = (LB # ?g @ [RB]) @ rest" using Cons True csplit by simp
              then have "drop (k + length (LB # ?g @ [RB])) s = drop k rest"
                by (metis add.commute append_eq_conv_conj drop_drop)
              then show ?thesis by simp
            qed
            have le: "?e \<le> startIndex x" "startIndex x \<le> endIndex x"
              using ih by auto
            have a: "startIndex x - idx = (startIndex x - ?e) + (length ?g + 2)"
              using le by arith
            have b: "endIndex x - idx = (endIndex x - ?e) + (length ?g + 2)"
              using le by arith
            have "idx \<le> startIndex x" using le by arith
            moreover have "drop (startIndex x - idx) s
                = LB # expression x @ RB # drop (endIndex x - idx) s"
              unfolding a b dr using ih by blast
            ultimately show ?thesis using ih by blast
          qed
        qed
      qed
    qed
  qed
qed

lemma available_span:
  assumes "x \<in> set (findAvailableExpressions gs)"
  shows "displayState gs = take (startIndex x) (displayState gs) @ [LB] @ expression x @ [RB]
           @ drop (endIndex x) (displayState gs)"
proof -
  have "drop (startIndex x) (displayState gs) = LB # expression x @ RB # drop (endIndex x) (displayState gs)"
    using regexLoop_span [of x "displayState gs" 0 "{||}"] assms
    by (simp add: findAvailableExpressions_def)
  then show ?thesis
    using append_take_drop_id [of "startIndex x" "displayState gs"] by simp
qed

text \<open>The regular-expression scanner lists its clues from left to right, and
  no two of them overlap.\<close>

lemma regexLoop_sorted:
  "sorted_wrt (\<lambda>a b. endIndex a \<le> startIndex b) (regexLoop s idx m)"
proof (induction "length s" arbitrary: s idx m rule: less_induct)
  case less
  show ?case
  proof (cases s)
    case Nil
    then show ?thesis by simp
  next
    case (Cons c cs)
    have skip: "sorted_wrt (\<lambda>a b. endIndex a \<le> startIndex b) (regexLoop cs (Suc idx) m)"
      by (rule less.hyps) (simp add: Cons)
    show ?thesis
    proof (cases "dropWhile notBracket cs")
      case dn: Nil
      show ?thesis using Cons skip by (simp add: dn)
    next
      case dc: (Cons d rest)
      have lr: "length rest < length s"
        using length_dropWhile_le [of notBracket cs] dc Cons by simp
      let ?e = "idx + (length (takeWhile notBracket cs) + 2)"
      have tail: "sorted_wrt (\<lambda>a b. endIndex a \<le> startIndex b) (regexLoop rest ?e m')" for m'
        by (rule less.hyps [OF lr])
      have low: "?e \<le> startIndex y" if "y \<in> set (regexLoop rest ?e m')" for y m'
        using regexLoop_span [OF that] by simp
      show ?thesis
        using Cons skip tail low by (auto simp: dc Let_def)
    qed
  qed
qed

lemma available_sorted:
  "sorted_wrt (\<lambda>a b. endIndex a \<le> startIndex b) (findAvailableExpressions gs)"
  by (simp add: findAvailableExpressions_def regexLoop_sorted)

lemma available_nonempty_span:
  "x \<in> set (findAvailableExpressions gs) \<Longrightarrow> startIndex x < endIndex x"
  using regexLoop_span [of x "displayState gs" 0 "{||}"]
  by (simp add: findAvailableExpressions_def)

lemma available_leftmost:
  assumes "x \<in> set (findAvailableExpressions gs)"
  shows "\<exists>pre post. findAvailableExpressions gs = pre @ x # post
     \<and> (\<forall>y\<in>set pre. y \<in> set (findAvailableExpressions gs) \<and> startIndex y < startIndex x)"
proof -
  obtain pre post where sp: "findAvailableExpressions gs = pre @ x # post"
    using assms by (auto dest: split_list)
  have "sorted_wrt (\<lambda>a b. endIndex a \<le> startIndex b) (pre @ x # post)"
    using available_sorted [of gs] sp by simp
  then have le: "\<forall>y\<in>set pre. endIndex y \<le> startIndex x"
    by (simp add: sorted_wrt_append)
  have "\<forall>y\<in>set pre. y \<in> set (findAvailableExpressions gs) \<and> startIndex y < startIndex x"
  proof
    fix y assume y: "y \<in> set pre"
    then have in_av: "y \<in> set (findAvailableExpressions gs)" using sp by simp
    from available_nonempty_span [OF in_av] le y
    show "y \<in> set (findAvailableExpressions gs) \<and> startIndex y < startIndex x"
      using in_av by fastforce
  qed
  then show ?thesis using sp by blast
qed

lemma available_active_nonempty:
  assumes "balanced (displayState gs)"
  shows "(findAvailableExpressions gs \<noteq> [])
     = (\<exists>c\<in>set (findActiveClues (displayState gs)). clueExpression c \<noteq> [])"
proof -
  have "map expressionWindow (findAvailableExpressions gs)
     = map clueWindow (filter (\<lambda>c. clueExpression c \<noteq> []) (findActiveClues (displayState gs)))"
    using findClues_regexLoop [of "displayState gs" 0] assms
    by (simp add: balanced_def findAvailableExpressions_def findActiveClues_def)
  then have "(findAvailableExpressions gs = [])
     = (filter (\<lambda>c. clueExpression c \<noteq> []) (findActiveClues (displayState gs)) = [])"
    by (metis map_is_Nil_conv)
  then show ?thesis by (auto simp: filter_empty_conv)
qed

section \<open>Lemmas on the answer key, scoring, the actions and the examples\<close>

lemma getProperty_Inherited: "(\<exists>t. getProperty key e = Inherited t) = inheritedName key e"
  by (auto simp: getProperty_def inheritedName_def split: option.splits)

lemma getProperty_Str: "(getProperty key e = Str s) = (key e = Some s)"
  by (auto simp: getProperty_def split: option.splits)

lemma getProperty_Undefined:
  "(getProperty key e = Undefined) = (key e = None \<and> map_of objectPrototype e = None)"
  by (auto simp: getProperty_def split: option.splits)

lemma inherited_constructor: "map_of objectPrototype ''constructor'' = Some (nativeFunction ''Object'')"
  by (simp add: objectPrototype_def)

lemma not_inherited_ab: "map_of objectPrototype ''a'' = None" "map_of objectPrototype ''b'' = None"
  by (simp_all add: objectPrototype_def)

lemma ranks_descending:
  "sortDescending (rankThresholds getScoreConfig) =
     [(''Puppet Master'', 100), (''Kingmaker'', 91), (''Power Broker'', 79), (''Mayor'', 68),
      (''Chief of Police'', 51), (''Council Member'', 31), (''Resident'', 21),
      (''Commuter'', 11), (''Tourist'', 0)]"
  by (simp add: sortDescending_def getScoreConfig_def)

lemma calculateRank_table:
  "calculateRank s p m w =
     (if 100 \<le> s then ''Puppet Master''
      else if 91 \<le> s then ''Kingmaker''
      else if 79 \<le> s then ''Power Broker''
      else if 68 \<le> s then ''Mayor''
      else if 51 \<le> s then ''Chief of Police''
      else if 31 \<le> s then ''Council Member''
      else if 21 \<le> s then ''Resident''
      else if 11 \<le> s then ''Commuter''
      else ''Tourist'')"
  by (simp add: calculateRank_def Let_def ranks_descending)

lemma guessLoop_success: "guessLoop es g gs pd = Inr (Some r) \<Longrightarrow> success r"
  by (induction es) (auto simp: Let_def split: JSValue.splits if_splits)

lemma guessLoop_none:
  "\<forall>y\<in>set es. \<not> guessMatches pd g y \<and> \<not> inheritedName (solutions pd) (expression y) \<Longrightarrow>
   guessLoop es g gs pd = Inr None"
proof (induction es)
  case Nil
  show ?case by simp
next
  case (Cons y es)
  have ih: "guessLoop es g gs pd = Inr None" using Cons by simp
  have a: "\<not> guessMatches pd g y" and b: "\<not> inheritedName (solutions pd) (expression y)"
    using Cons.prems by auto
  show ?case
  proof (cases "getProperty (solutions pd) (expression y)")
    case Undefined
    then show ?thesis using ih by (simp add: Let_def)
  next
    case (Str s)
    then have "solutions pd (expression y) = Some s" by (simp add: getProperty_Str)
    then have "\<not> (s \<noteq> [] \<and> trim (toLowerCase g) = trim (toLowerCase s))"
      using a by (simp add: guessMatches_def)
    then show ?thesis using ih Str by (auto simp: Let_def)
  next
    case (Inherited t)
    then show ?thesis using b getProperty_Inherited [of "solutions pd" "expression y"] by auto
  qed
qed

lemma guessLoop_append:
  "guessLoop pre g gs pd = Inr None \<Longrightarrow> guessLoop (pre @ es) g gs pd = guessLoop es g gs pd"
  by (induction pre) (auto simp: Let_def split: JSValue.splits if_splits)

lemma guessLoop_first:
  assumes "\<forall>y\<in>set pre. \<not> guessMatches pd g y \<and> \<not> inheritedName (solutions pd) (expression y)"
    and "guessMatches pd g x" and "solutions pd (expression x) = Some sol"
  shows "guessLoop (pre @ x # post) g gs pd =
     Inr (Some \<lparr>success = True, hint = None, solution = None,
       message = ''Correct! '' @ dq @ expression x @ dq @ '' = '' @ dq @ sol @ dq,
       gameState = gs\<lparr>displayState :=
           take (startIndex x) (displayState gs) @ sol @ drop (endIndex x) (displayState gs),
         solvedExpressions := finsert (expression x) (solvedExpressions gs),
         activeClues := findActiveClues
           (take (startIndex x) (displayState gs) @ sol @ drop (endIndex x) (displayState gs))\<rparr>\<rparr>)"
proof -
  have "guessLoop (pre @ x # post) g gs pd = guessLoop (x # post) g gs pd"
    by (rule guessLoop_append) (rule guessLoop_none [OF assms(1)])
  moreover have "getProperty (solutions pd) (expression x) = Str sol"
    using assms(3) by (simp add: getProperty_Str)
  moreover have "sol \<noteq> [] \<and> trim (toLowerCase g) = trim (toLowerCase sol)"
    using assms(2,3) by (simp add: guessMatches_def)
  ultimately show ?thesis by (simp add: Let_def)
qed

lemma guessLoop_cong:
  "(\<And>x. x \<in> set es \<Longrightarrow>
      (case getProperty (solutions pd) (expression x) of Str [] \<Rightarrow> Undefined | v \<Rightarrow> v)
       = (case getProperty (solutions pd') (expression x) of Str [] \<Rightarrow> Undefined | v \<Rightarrow> v)) \<Longrightarrow>
   guessLoop es g gs pd = guessLoop es g gs pd'"
proof (induction es)
  case Nil
  then show ?case by simp
next
  case (Cons x es)
  have "guessLoop es g gs pd = guessLoop es g gs pd'"
    using Cons by simp
  moreover have "(case getProperty (solutions pd) (expression x) of Str [] \<Rightarrow> Undefined | v \<Rightarrow> v)
       = (case getProperty (solutions pd') (expression x) of Str [] \<Rightarrow> Undefined | v \<Rightarrow> v)"
    using Cons.prems by simp
  ultimately show ?case
    by (auto simp: Let_def split: JSValue.splits list.splits if_splits)
qed

lemma find_first:
  "\<forall>y\<in>set pre. \<not> P y \<Longrightarrow> P x \<Longrightarrow> find P (pre @ x # post) = Some x"
  by (induction pre) auto

lemma find_None_set: "(find P xs = None) = (\<forall>x\<in>set xs. \<not> P x)"
  by (auto simp: find_None_iff)

lemma norm_ex: "trim (toLowerCase ''  paris '') = ''paris''" "trim (toLowerCase ''Paris'') = ''paris''"
  "trim (toLowerCase []) = []" "trim (toLowerCase ''x'') = ''x''"
  by code_simp+

lemma avail_a: "findAvailableExpressions (exState ''[a]'')
   = [\<lparr>expression = ''a'', startIndex = 0, endIndex = 3\<rparr>]"
  by (simp add: findAvailableExpressions_def exState_def notBracket_def)

lemma avail_b: "findAvailableExpressions (exState ''[b]'')
   = [\<lparr>expression = ''b'', startIndex = 0, endIndex = 3\<rparr>]"
  by (simp add: findAvailableExpressions_def exState_def notBracket_def)

lemma avail_ba: "findAvailableExpressions (exState ''[b] [a]'')
   = [\<lparr>expression = ''b'', startIndex = 0, endIndex = 3\<rparr>,
      \<lparr>expression = ''a'', startIndex = 4, endIndex = 7\<rparr>]"
  by (simp add: findAvailableExpressions_def exState_def notBracket_def)

lemma avail_constructor: "findAvailableExpressions (exState ''[constructor]'')
   = [\<lparr>expression = ''constructor'', startIndex = 0, endIndex = 13\<rparr>]"
  by (simp add: findAvailableExpressions_def exState_def notBracket_def)

lemma avail_constructor_a: "findAvailableExpressions (exState ''[constructor] [a]'')
   = [\<lparr>expression = ''constructor'', startIndex = 0, endIndex = 13\<rparr>,
      \<lparr>expression = ''a'', startIndex = 14, endIndex = 17\<rparr>]"
  by (simp add: findAvailableExpressions_def exState_def notBracket_def)

lemma reveal_a: "revealClue ''a'' (exState ''[a]'') (exPuzzle ''[a]'' [''a'' \<mapsto> ''x''])
   = \<lparr>success = True, hint = None, solution = Some (Str ''x''),
      message = ''Revealed answer for '' @ dq @ ''a'' @ dq @ '': '' @ dq @ ''x'' @ dq,
      gameState = (exState ''[a]'')\<lparr>displayState := ''x'', solvedExpressions := {|''a''|},
          revealedExpressions := {|''a''|}, activeClues := []\<rparr>\<rparr>"
  by (simp add: revealClue_def avail_a Let_def exPuzzle_def getProperty_def)
    (simp add: exState_def findActiveClues_def)

lemma init_a: "initializeGameState (exPuzzle ''[a]'' [''a'' \<mapsto> ''x'']) = exState ''[a]''"
  by (simp add: initializeGameState_def exPuzzle_def exState_def)

lemma run0: "runTools (exPuzzle ''[a]'' [''a'' \<mapsto> ''x'']) []
   = Inr \<lparr>curGameState = exState ''[a]'',
      curStats = \<lparr>guesses = 0, correctGuesses = 0, hints = 0, reveals = 0\<rparr>,
      completedPuzzle = False\<rparr>"
  by (simp add: runTools_def init_a)

lemma guess_a: "makeGuess ''a'' ''x'' (exState ''[a]'') (exPuzzle ''[a]'' [''a'' \<mapsto> ''x''])
   = Inr \<lparr>success = True, hint = None, solution = None,
      message = ''Correct! '' @ dq @ ''a'' @ dq @ '' = '' @ dq @ ''x'' @ dq,
      gameState = (exState ''[a]'')\<lparr>displayState := ''x'', solvedExpressions := {|''a''|},
          activeClues := []\<rparr>\<rparr>"
  by (simp add: makeGuess_def avail_a exPuzzle_def getProperty_def Let_def)
    (simp add: exState_def findActiveClues_def)

lemma run1: "runTools (exPuzzle ''[a]'' [''a'' \<mapsto> ''x'']) [MakeGuessCall ''a'' ''x'']
   = Inr \<lparr>curGameState = (exState ''[a]'')\<lparr>displayState := ''x'', solvedExpressions := {|''a''|},
          activeClues := []\<rparr>,
      curStats = \<lparr>guesses = 1, correctGuesses = 1, hints = 0, reveals = 0\<rparr>,
      completedPuzzle = True\<rparr>"
  by (simp add: runTools_def init_a guess_a Let_def findActiveClues_def)

section \<open>The claims\<close>

text \<open>
  C1, as amended. \<open>findActiveClues\<close> has no structural-error path: for every
  document, balanced or not, it returns an ordinary list of clues. Every clue
  of the list is a non-empty window of the document that begins with an
  opening bracket (\<open>start < end \<le> length\<close>, and the raw text is the document
  from \<open>start\<close> to \<open>end\<close>), and a document without an opening bracket, even one
  with unmatched closing brackets, yields the empty list.
\<close>

theorem findActiveClues_returns_windows:
  "(\<forall>c\<in>set (findActiveClues s).
      start c < endPos c \<and> endPos c \<le> length s
      \<and> rawText c = take (endPos c - start c) (drop (start c) s)
      \<and> hd (rawText c) = LB)
   \<and> (LB \<notin> set s \<longrightarrow> findActiveClues s = [])"
proof (intro conjI ballI impI)
  fix c
  assume "c \<in> set (findActiveClues s)"
  then have w: "windowOf s 0 c"
    by (simp add: findActiveClues_def findClues_windowOf)
  show "start c < endPos c" using w by (simp add: windowOf_def)
  show "endPos c \<le> length s" using w by (simp add: windowOf_def)
  show "rawText c = take (endPos c - start c) (drop (start c) s)"
    using w by (simp add: windowOf_def)
  show "hd (rawText c) = LB" using w unfolding windowOf_def by blast
next
  assume "LB \<notin> set s"
  then show "findActiveClues s = []"
    by (simp add: findActiveClues_def findClues_no_opening)
qed

theorem findActiveClues_returns_windows_witness:
  "\<not> balanced ''a][b''
   \<and> map (\<lambda>c. (start c, endPos c, rawText c)) (findActiveClues ''a][b'') = [(2, 4, ''[b'')]
   \<and> take (4 - 2) (drop 2 ''a][b'') = ''[b''
   \<and> LB \<notin> set ''a]'' \<and> \<not> balanced ''a]'' \<and> findActiveClues ''a]'' = []"
proof -
  have "findActiveClues ''a]'' = []"
    using findActiveClues_returns_windows [of "''a]''"] by simp
  moreover have "map (\<lambda>c. (start c, endPos c, rawText c)) (findActiveClues ''a][b'')
      = [(2, 4, ''[b'')]"
    by (simp add: findActiveClues_def)
  ultimately show ?thesis by (simp add: balanced_def)
qed

text \<open>C1 as stated fails: the brackets of \<open>[abc\<close> and of \<open>a]\<close> are not balanced, and
  \<open>findActiveClues\<close> returns a list of clues for both.\<close>

theorem findActiveClues_accepts_unbalanced:
  "\<not> balanced ''[abc''
   \<and> findActiveClues ''[abc''
       = [\<lparr>start = 0, endPos = 4, rawText = ''[abc'', clueExpression = ''ab''\<rparr>]
   \<and> \<not> balanced ''a]''
   \<and> findActiveClues ''a]'' = []"
  by (simp add: balanced_def findActiveClues_def)

text \<open>
  C2, as amended. A clue is active when \<open>findAvailableExpressions\<close> lists it, and
  the list is in document order. Provided every active clue whose expression
  the answer key lacks and that names a property every object inherits has a
  matching clue to its left (so that the loop returns before it reads that
  clue), Guess returns an outcome, and it succeeds if and only if some active
  clue has a non-empty answer-key entry that equals the guess once both are
  lower-cased and trimmed. The first such clue in document order is the one
  resolved, whatever expression the caller named: its bracketed span in
  \<open>displayState\<close> is replaced by the solution as the answer key stores it, and
  its expression is added to \<open>solvedExpressions\<close>.
\<close>

theorem makeGuess_resolves_first_match:
  "sorted_wrt (\<lambda>a b. endIndex a \<le> startIndex b) (findAvailableExpressions gs)
   \<and> ((\<forall>y\<in>set (findAvailableExpressions gs). inheritedName (solutions pd) (expression y) \<longrightarrow>
          (\<exists>x\<in>set (findAvailableExpressions gs). guessMatches pd g x \<and> startIndex x < startIndex y))
        \<longrightarrow>
        (\<exists>r. makeGuess e g gs pd = Inr r
           \<and> (success r \<longleftrightarrow> (\<exists>x\<in>set (findAvailableExpressions gs). guessMatches pd g x))))
   \<and> (\<forall>x sol.
         x \<in> set (findAvailableExpressions gs) \<and> guessMatches pd g x
         \<and> solutions pd (expression x) = Some sol
         \<and> (\<forall>y\<in>set (findAvailableExpressions gs). startIndex y < startIndex x \<longrightarrow>
               \<not> guessMatches pd g y \<and> \<not> inheritedName (solutions pd) (expression y)) \<longrightarrow>
         (\<exists>r. makeGuess e g gs pd = Inr r \<and> success r
            \<and> displayState gs = take (startIndex x) (displayState gs) @ [LB] @ expression x @ [RB]
                @ drop (endIndex x) (displayState gs)
            \<and> displayState (gameState r)
                = take (startIndex x) (displayState gs) @ sol @ drop (endIndex x) (displayState gs)
            \<and> solvedExpressions (gameState r)
                = finsert (expression x) (solvedExpressions gs)))"
proof (intro conjI allI impI)
  show "sorted_wrt (\<lambda>a b. endIndex a \<le> startIndex b) (findAvailableExpressions gs)"
    by (rule available_sorted)
next
  fix x sol
  assume a: "x \<in> set (findAvailableExpressions gs) \<and> guessMatches pd g x
         \<and> solutions pd (expression x) = Some sol
         \<and> (\<forall>y\<in>set (findAvailableExpressions gs). startIndex y < startIndex x \<longrightarrow>
               \<not> guessMatches pd g y \<and> \<not> inheritedName (solutions pd) (expression y))"
  then have xin: "x \<in> set (findAvailableExpressions gs)" by simp
  obtain pre post where sp: "findAvailableExpressions gs = pre @ x # post"
    and left: "\<forall>y\<in>set pre. y \<in> set (findAvailableExpressions gs) \<and> startIndex y < startIndex x"
    using available_leftmost [OF xin] by blast
  have clean: "\<forall>y\<in>set pre. \<not> guessMatches pd g y \<and> \<not> inheritedName (solutions pd) (expression y)"
    using a left by blast
  have m: "guessMatches pd g x" and s: "solutions pd (expression x) = Some sol"
    using a by auto
  have gl: "guessLoop (findAvailableExpressions gs) g gs pd =
     Inr (Some \<lparr>success = True, hint = None, solution = None,
       message = ''Correct! '' @ dq @ expression x @ dq @ '' = '' @ dq @ sol @ dq,
       gameState = gs\<lparr>displayState :=
           take (startIndex x) (displayState gs) @ sol @ drop (endIndex x) (displayState gs),
         solvedExpressions := finsert (expression x) (solvedExpressions gs),
         activeClues := findActiveClues
           (take (startIndex x) (displayState gs) @ sol @ drop (endIndex x) (displayState gs))\<rparr>\<rparr>)"
    unfolding sp by (rule guessLoop_first [OF clean m s])
  have span: "displayState gs = take (startIndex x) (displayState gs) @ [LB] @ expression x @ [RB]
                @ drop (endIndex x) (displayState gs)"
    by (rule available_span [OF xin])
  show "\<exists>r. makeGuess e g gs pd = Inr r \<and> success r
            \<and> displayState gs = take (startIndex x) (displayState gs) @ [LB] @ expression x @ [RB]
                @ drop (endIndex x) (displayState gs)
            \<and> displayState (gameState r)
                = take (startIndex x) (displayState gs) @ sol @ drop (endIndex x) (displayState gs)
            \<and> solvedExpressions (gameState r)
                = finsert (expression x) (solvedExpressions gs)"
    using span by (simp add: makeGuess_def gl)
next
  let ?av = "findAvailableExpressions gs"
  assume guard: "\<forall>y\<in>set ?av. inheritedName (solutions pd) (expression y) \<longrightarrow>
          (\<exists>x\<in>set ?av. guessMatches pd g x \<and> startIndex x < startIndex y)"
  show "\<exists>r. makeGuess e g gs pd = Inr r
           \<and> (success r \<longleftrightarrow> (\<exists>x\<in>set ?av. guessMatches pd g x))"
  proof (cases "\<exists>x\<in>set ?av. guessMatches pd g x")
    case False
    then have "\<forall>y\<in>set ?av. \<not> guessMatches pd g y \<and> \<not> inheritedName (solutions pd) (expression y)"
      using guard by blast
    then have "guessLoop ?av g gs pd = Inr None"
      by (rule guessLoop_none)
    then show ?thesis using False
      by (auto simp: makeGuess_def noActiveClue_def split: option.splits)
  next
    case True
    then obtain pre x post where sp: "?av = pre @ x # post" and mx: "guessMatches pd g x"
      and nm: "\<forall>y\<in>set pre. \<not> guessMatches pd g y"
      using split_list_first_prop [of ?av "guessMatches pd g"] by blast
    obtain sol where s: "solutions pd (expression x) = Some sol"
      using mx by (auto simp: guessMatches_def split: option.splits)
    have srt: "sorted_wrt (\<lambda>a b. endIndex a \<le> startIndex b) (pre @ x # post)"
      using available_sorted [of gs] sp by simp
    have ni: "\<not> inheritedName (solutions pd) (expression y)" if y: "y \<in> set pre" for y
    proof
      assume "inheritedName (solutions pd) (expression y)"
      moreover have yin: "y \<in> set ?av" using y sp by simp
      ultimately obtain x' where x': "x' \<in> set ?av" "guessMatches pd g x'"
        "startIndex x' < startIndex y"
        using guard by blast
      have "x' \<notin> set pre" using x'(2) nm by blast
      then have "x' \<in> set (x # post)" using x'(1) sp by auto
      then have "endIndex y \<le> startIndex x'"
        using srt y by (auto simp: sorted_wrt_append)
      moreover have "startIndex y < endIndex y"
        by (rule available_nonempty_span [OF yin])
      ultimately show False using x'(3) by simp
    qed
    have clean: "\<forall>y\<in>set pre. \<not> guessMatches pd g y \<and> \<not> inheritedName (solutions pd) (expression y)"
      using nm ni by blast
    have "\<exists>r. guessLoop ?av g gs pd = Inr (Some r)"
      unfolding sp using guessLoop_first [OF clean mx s] by simp
    then obtain r where r: "guessLoop ?av g gs pd = Inr (Some r)" by blast
    then show ?thesis using True guessLoop_success [OF r]
      by (simp add: makeGuess_def)
  qed
qed

theorem makeGuess_resolves_first_match_witness:
  "makeGuess ''b'' ''  paris '' (exState ''[b] [a]'') (exPuzzle ''[b] [a]'' [''a'' \<mapsto> ''Paris''])
     = Inr \<lparr>success = True, hint = None, solution = None,
          message = ''Correct! '' @ dq @ ''a'' @ dq @ '' = '' @ dq @ ''Paris'' @ dq,
          gameState = (exState ''[b] [a]'')\<lparr>displayState := ''[b] Paris'',
            solvedExpressions := {|''a''|}, activeClues := findActiveClues ''[b] Paris''\<rparr>\<rparr>
   \<and> (\<exists>r. makeGuess ''b'' ''  paris '' (exState ''[b] [a]'')
          (exPuzzle ''[b] [a]'' [''a'' \<mapsto> ''Paris'']) = Inr r \<and> success r
        \<and> displayState (gameState r) = ''[b] Paris''
        \<and> solvedExpressions (gameState r) = {|''a''|})"
proof -
  let ?gs = "exState ''[b] [a]''"
  let ?pd = "exPuzzle ''[b] [a]'' [''a'' \<mapsto> ''Paris'']"
  let ?b = "\<lparr>expression = ''b'', startIndex = 0, endIndex = 3\<rparr>"
  let ?a = "\<lparr>expression = ''a'', startIndex = 4, endIndex = 7\<rparr>"
  have nb: "\<not> guessMatches ?pd ''  paris '' ?b" "\<not> inheritedName (solutions ?pd) (expression ?b)"
    by (simp_all add: guessMatches_def exPuzzle_def inheritedName_def not_inherited_ab)
  have ma: "guessMatches ?pd ''  paris '' ?a"
    by (simp add: guessMatches_def exPuzzle_def norm_ex)
  have sol: "solutions ?pd (expression ?a) = Some ''Paris''"
    by (simp add: exPuzzle_def)
  have ds: "displayState ?gs = ''[b] [a]''" "solvedExpressions ?gs = {||}"
    by (simp_all add: exState_def)
  have pre: "?a \<in> set (findAvailableExpressions ?gs) \<and> guessMatches ?pd ''  paris '' ?a
         \<and> solutions ?pd (expression ?a) = Some ''Paris''
         \<and> (\<forall>y\<in>set (findAvailableExpressions ?gs). startIndex y < startIndex ?a \<longrightarrow>
               \<not> guessMatches ?pd ''  paris '' y \<and> \<not> inheritedName (solutions ?pd) (expression y))"
    using nb ma sol by (simp add: avail_ba)
  have 2: "\<exists>r. makeGuess ''b'' ''  paris '' ?gs ?pd = Inr r \<and> success r
        \<and> displayState (gameState r) = ''[b] Paris''
        \<and> solvedExpressions (gameState r) = {|''a''|}"
    using makeGuess_resolves_first_match [where gs = ?gs and pd = ?pd and e = "''b''" and g = "''  paris ''",
        THEN conjunct2, THEN conjunct2, rule_format, OF pre]
    by (simp add: ds)
  have 1: "makeGuess ''b'' ''  paris '' ?gs ?pd
     = Inr \<lparr>success = True, hint = None, solution = None,
          message = ''Correct! '' @ dq @ ''a'' @ dq @ '' = '' @ dq @ ''Paris'' @ dq,
          gameState = ?gs\<lparr>displayState := ''[b] Paris'',
            solvedExpressions := {|''a''|}, activeClues := findActiveClues ''[b] Paris''\<rparr>\<rparr>"
    by (simp add: makeGuess_def avail_ba exPuzzle_def getProperty_def not_inherited_ab norm_ex
        Let_def ds)
  show ?thesis using 1 2 by blast
qed

text \<open>C2 as stated fails in two ways. For an answer-key entry that is the empty
  string: the clue \<open>a\<close> is active, its entry equals the empty guess, and the
  guess is rejected. For an active clue named \<open>constructor\<close> that the answer key
  lacks: the clue \<open>a\<close> behind it has the entry \<open>x\<close>, and the guess \<open>x\<close> throws a
  \<open>TypeError\<close> instead of succeeding.\<close>

theorem makeGuess_rejects_empty_solution_and_throws:
  "(\<exists>x\<in>set (findAvailableExpressions (exState ''[a]'')).
      \<exists>sol. solutions (exPuzzle ''[a]'' [''a'' \<mapsto> []]) (expression x) = Some sol
        \<and> trim (toLowerCase []) = trim (toLowerCase sol))
   \<and> makeGuess ''a'' [] (exState ''[a]'') (exPuzzle ''[a]'' [''a'' \<mapsto> []])
       = Inr (noActiveClue ''a'' (exState ''[a]''))
   \<and> \<not> success (noActiveClue ''a'' (exState ''[a]''))
   \<and> (\<exists>x\<in>set (findAvailableExpressions (exState ''[constructor] [a]'')).
      \<exists>sol. solutions (exPuzzle ''[constructor] [a]'' [''a'' \<mapsto> ''x'']) (expression x) = Some sol
        \<and> trim (toLowerCase ''x'') = trim (toLowerCase sol))
   \<and> makeGuess ''a'' ''x'' (exState ''[constructor] [a]'')
        (exPuzzle ''[constructor] [a]'' [''a'' \<mapsto> ''x'']) = Inl TypeError"
  by (simp add: avail_a avail_constructor_a exPuzzle_def makeGuess_def noActiveClue_def Let_def
      getProperty_def inherited_constructor)

text \<open>
  C3, as amended. For every document with balanced brackets, the single-pass
  regular-expression scanner (\<open>findAvailableExpressions\<close>) yields exactly the
  clues of the recursive scanner (\<open>findActiveClues\<close>) whose expression is not
  empty: the same expressions with the same start and end offsets, in the same
  order. An empty pair of brackets is a clue of the recursive scanner only.
\<close>

theorem regex_scanner_finds_nonempty_active_clues:
  "balanced (displayState gs) \<Longrightarrow>
   map expressionWindow (findAvailableExpressions gs)
     = map clueWindow (filter (\<lambda>c. clueExpression c \<noteq> []) (findActiveClues (displayState gs)))"
  using findClues_regexLoop [of "displayState gs" 0]
  by (simp add: balanced_def findAvailableExpressions_def findActiveClues_def)

theorem regex_scanner_finds_nonempty_active_clues_witness:
  "balanced (displayState (exState ''a[b[c]d[]]e[f]''))
   \<and> map expressionWindow (findAvailableExpressions (exState ''a[b[c]d[]]e[f]''))
       = [(''c'', 3, 6), (''f'', 11, 14)]
   \<and> map clueWindow (findActiveClues ''a[b[c]d[]]e[f]'')
       = [(''c'', 3, 6), ([], 7, 9), (''f'', 11, 14)]"
proof -
  have b: "balanced (displayState (exState ''a[b[c]d[]]e[f]''))"
    by (simp add: balanced_def exState_def)
  have c: "map clueWindow (findActiveClues ''a[b[c]d[]]e[f]'')
       = [(''c'', 3, 6), ([], 7, 9), (''f'', 11, 14)]"
    by (simp add: findActiveClues_def clueWindow_def)
  have d: "findActiveClues (displayState (exState ''a[b[c]d[]]e[f]''))
       = findActiveClues ''a[b[c]d[]]e[f]''"
    by (simp add: exState_def)
  have "map expressionWindow (findAvailableExpressions (exState ''a[b[c]d[]]e[f]''))
       = map clueWindow (filter (\<lambda>c. clueExpression c \<noteq> []) (findActiveClues ''a[b[c]d[]]e[f]''))"
    using regex_scanner_finds_nonempty_active_clues [OF b] unfolding d .
  also have "\<dots> = [(''c'', 3, 6), (''f'', 11, 14)]"
    by (simp add: findActiveClues_def clueWindow_def)
  finally show ?thesis using b c by simp
qed

text \<open>C3 as stated fails on the balanced document \<open>[]\<close>: the recursive scanner
  reports the clue with the empty expression, the regular expression asks for
  at least one character between the brackets and reports nothing.\<close>

theorem scanners_differ_on_empty_brackets:
  "balanced ''[]''
   \<and> map clueWindow (findActiveClues ''[]'') = [([], 0, 2)]
   \<and> map expressionWindow (findAvailableExpressions (exState ''[]'')) = []"
  by (simp add: balanced_def findActiveClues_def clueWindow_def findAvailableExpressions_def
      exState_def)

text \<open>\<open>calculateRank\<close> on its own ranks a score of 100 with one hint "Puppet
  Master", since the table it falls back to holds "Puppet Master" at 100; its
  only caller \<open>calculateScore\<close> never passes such arguments, as the theorem
  after it shows.\<close>

lemma calculateRank_alone: "calculateRank 100 1 0 0 = ''Puppet Master''"
  by (simp add: calculateRank_table)

text \<open>
  C4. For all counts (the sizes of the hinted and revealed sets, and the wrong
  guesses \<open>max 0 (guesses - correctGuesses)\<close>), the rank that \<open>calculateScore\<close>
  computes is "Puppet Master" if and only if the final score is 100 and the
  three counts are zero; whenever the final score is 100 and a count is not
  zero, the rank is "Kingmaker". The final score is 100 exactly when the
  three counts are zero, and with a count that is not zero every final score
  from 91 on is ranked "Kingmaker".
\<close>

theorem calculateScore_puppet_master:
  "(let d = calculateScore gs stats;
        peekCount = int (fcard (hintedExpressions gs));
        megaPeekCount = int (fcard (revealedExpressions gs));
        wrongGuessCount = max 0 (guesses stats - correctGuesses stats)
    in (rank d = ''Puppet Master'' \<longleftrightarrow>
          finalScore d = 100 \<and> peekCount = 0 \<and> megaPeekCount = 0 \<and> wrongGuessCount = 0)
     \<and> (finalScore d = 100 \<and> (peekCount \<noteq> 0 \<or> megaPeekCount \<noteq> 0 \<or> wrongGuessCount \<noteq> 0)
          \<longrightarrow> rank d = ''Kingmaker'')
     \<and> (finalScore d = 100 \<longleftrightarrow> peekCount = 0 \<and> megaPeekCount = 0 \<and> wrongGuessCount = 0)
     \<and> (91 \<le> finalScore d \<and> (peekCount \<noteq> 0 \<or> megaPeekCount \<noteq> 0 \<or> wrongGuessCount \<noteq> 0)
          \<longrightarrow> rank d = ''Kingmaker''))"
proof -
  define p where "p = int (fcard (hintedExpressions gs))"
  define m where "m = int (fcard (revealedExpressions gs))"
  define w where "w = max 0 (guesses stats - correctGuesses stats)"
  define s where "s = min 100 (max 0 (100 - (p * 5 + m * 15 + w * 2)))"
  have nn: "0 \<le> p" "0 \<le> m" "0 \<le> w" by (simp_all add: p_def m_def w_def)
  have fs: "finalScore (calculateScore gs stats) = s"
    by (simp add: s_def p_def m_def w_def calculateScore_def Let_def getScoreConfig_def)
  have rk: "rank (calculateScore gs stats) = calculateRank s p m w"
    by (simp add: s_def p_def m_def w_def calculateScore_def Let_def getScoreConfig_def)
  have full: "s = 100 \<longleftrightarrow> p = 0 \<and> m = 0 \<and> w = 0"
    using nn unfolding s_def by auto
  have pm: "calculateRank s p m w = ''Puppet Master'' \<longleftrightarrow> s = 100"
    unfolding calculateRank_table s_def by auto
  have km: "calculateRank s p m w = ''Kingmaker''" if "91 \<le> s" "s \<noteq> 100"
    using that unfolding calculateRank_table s_def by auto
  show ?thesis
    unfolding Let_def fs rk p_def [symmetric] m_def [symmetric] w_def [symmetric]
    using full pm km by blast
qed

theorem calculateScore_puppet_master_witness:
  "rank (calculateScore (exState ''x'') \<lparr>guesses = 2, correctGuesses = 2, hints = 0, reveals = 0\<rparr>)
     = ''Puppet Master''
   \<and> finalScore (calculateScore (exState ''x'')
        \<lparr>guesses = 2, correctGuesses = 2, hints = 0, reveals = 0\<rparr>) = 100
   \<and> finalScore (calculateScore (exState ''x'')
        \<lparr>guesses = 3, correctGuesses = 2, hints = 0, reveals = 0\<rparr>) = 98
   \<and> rank (calculateScore (exState ''x'') \<lparr>guesses = 3, correctGuesses = 2, hints = 0, reveals = 0\<rparr>)
     = ''Kingmaker''"
proof -
  let ?gs = "exState ''x''"
  let ?s0 = "\<lparr>guesses = 2, correctGuesses = 2, hints = 0, reveals = 0\<rparr>"
  let ?s1 = "\<lparr>guesses = 3, correctGuesses = 2, hints = 0, reveals = 0\<rparr>"
  have z: "fcard (hintedExpressions ?gs) = 0" "fcard (revealedExpressions ?gs) = 0"
    by (simp_all add: exState_def)
  have f0: "finalScore (calculateScore ?gs ?s0) = 100"
    by (simp add: calculateScore_def Let_def getScoreConfig_def z)
  have f1: "finalScore (calculateScore ?gs ?s1) = 98"
    by (simp add: calculateScore_def Let_def getScoreConfig_def z)
  have r0: "rank (calculateScore ?gs ?s0) = ''Puppet Master''"
    using calculateScore_puppet_master [of ?gs ?s0] f0 by (simp add: Let_def z)
  have r1: "rank (calculateScore ?gs ?s1) = ''Kingmaker''"
    using calculateScore_puppet_master [of ?gs ?s1] f1 by (simp add: Let_def z)
  show ?thesis using f0 f1 r0 r1 by blast
qed

text \<open>
  C5. For all counts (the sizes of the hinted and revealed sets, and the wrong
  guesses \<open>max 0 (guesses - correctGuesses)\<close>), the final score of
  \<open>calculateScore\<close> is \<open>100 - (5 * peekCount + 15 * megaPeekCount + 2 * wrongGuessCount)\<close>
  clamped to \<open>[0, 100]\<close>; the table of \<open>getScoreConfig\<close> is Tourist (0), Commuter
  (11), Resident (21), Council Member (31), Chief of Police (51), Mayor (68),
  Power Broker (79), Kingmaker (91), Puppet Master (100); and the rank is the
  tier of that table whose threshold is the highest one not above the final
  score.
\<close>

theorem calculateScore_finalScore_rank:
  "(let d = calculateScore gs stats;
        peekCount = int (fcard (hintedExpressions gs));
        megaPeekCount = int (fcard (revealedExpressions gs));
        wrongGuessCount = max 0 (guesses stats - correctGuesses stats);
        table = [(''Tourist'', 0), (''Commuter'', 11), (''Resident'', 21),
                 (''Council Member'', 31), (''Chief of Police'', 51), (''Mayor'', 68),
                 (''Power Broker'', 79), (''Kingmaker'', 91), (''Puppet Master'', 100)]
    in finalScore d = max 0 (min 100 (100 - (5 * peekCount + 15 * megaPeekCount + 2 * wrongGuessCount)))
     \<and> rankThresholds getScoreConfig = table
     \<and> (\<exists>t. (rank d, t) \<in> set table \<and> t \<le> finalScore d
           \<and> (\<forall>(r', t') \<in> set table. t' \<le> finalScore d \<longrightarrow> t' \<le> t))
     \<and> rank d =
         (if 100 \<le> finalScore d then ''Puppet Master''
          else if 91 \<le> finalScore d then ''Kingmaker''
          else if 79 \<le> finalScore d then ''Power Broker''
          else if 68 \<le> finalScore d then ''Mayor''
          else if 51 \<le> finalScore d then ''Chief of Police''
          else if 31 \<le> finalScore d then ''Council Member''
          else if 21 \<le> finalScore d then ''Resident''
          else if 11 \<le> finalScore d then ''Commuter''
          else ''Tourist''))"
proof -
  define s where "s = finalScore (calculateScore gs stats)"
  have fs: "s = min 100 (max 0 (100 - (int (fcard (hintedExpressions gs)) * 5
      + int (fcard (revealedExpressions gs)) * 15 + max 0 (guesses stats - correctGuesses stats) * 2)))"
    by (simp add: s_def calculateScore_def Let_def getScoreConfig_def)
  have range: "0 \<le> s" "s \<le> 100" using fs by auto
  have rk: "rank (calculateScore gs stats)
      = calculateRank s (int (fcard (hintedExpressions gs))) (int (fcard (revealedExpressions gs)))
          (max 0 (guesses stats - correctGuesses stats))"
    by (simp add: s_def calculateScore_def Let_def getScoreConfig_def)
  have tab: "rankThresholds getScoreConfig =
      [(''Tourist'', 0), (''Commuter'', 11), (''Resident'', 21),
       (''Council Member'', 31), (''Chief of Police'', 51), (''Mayor'', 68),
       (''Power Broker'', 79), (''Kingmaker'', 91), (''Puppet Master'', 100)]"
    by (simp add: getScoreConfig_def)
  have tier: "\<exists>t. (calculateRank s p m w, t) \<in> set (rankThresholds getScoreConfig) \<and> t \<le> s
           \<and> (\<forall>(r', t') \<in> set (rankThresholds getScoreConfig). t' \<le> s \<longrightarrow> t' \<le> t)" for p m w
    using range by (simp add: calculateRank_table getScoreConfig_def)
  have "finalScore (calculateScore gs stats)
      = max 0 (min 100 (100 - (5 * int (fcard (hintedExpressions gs))
          + 15 * int (fcard (revealedExpressions gs))
          + 2 * max 0 (guesses stats - correctGuesses stats))))"
    using fs unfolding s_def by (simp add: mult.commute)
  moreover note tab
  moreover have "\<exists>t. (rank (calculateScore gs stats), t) \<in> set (rankThresholds getScoreConfig)
      \<and> t \<le> finalScore (calculateScore gs stats)
      \<and> (\<forall>(r', t') \<in> set (rankThresholds getScoreConfig).
            t' \<le> finalScore (calculateScore gs stats) \<longrightarrow> t' \<le> t)"
    unfolding rk using tier unfolding s_def .
  moreover have "rank (calculateScore gs stats) =
         (if 100 \<le> finalScore (calculateScore gs stats) then ''Puppet Master''
          else if 91 \<le> finalScore (calculateScore gs stats) then ''Kingmaker''
          else if 79 \<le> finalScore (calculateScore gs stats) then ''Power Broker''
          else if 68 \<le> finalScore (calculateScore gs stats) then ''Mayor''
          else if 51 \<le> finalScore (calculateScore gs stats) then ''Chief of Police''
          else if 31 \<le> finalScore (calculateScore gs stats) then ''Council Member''
          else if 21 \<le> finalScore (calculateScore gs stats) then ''Resident''
          else if 11 \<le> finalScore (calculateScore gs stats) then ''Commuter''
          else ''Tourist'')"
    unfolding rk calculateRank_table s_def ..
  ultimately show ?thesis
    unfolding Let_def tab [symmetric] by blast
qed

theorem calculateScore_finalScore_rank_witness:
  "rankThresholds getScoreConfig =
      [(''Tourist'', 0), (''Commuter'', 11), (''Resident'', 21),
       (''Council Member'', 31), (''Chief of Police'', 51), (''Mayor'', 68),
       (''Power Broker'', 79), (''Kingmaker'', 91), (''Puppet Master'', 100)]
   \<and> finalScore (calculateScore ((exState ''[a]'')\<lparr>hintedExpressions := {|''a'', ''b''|}\<rparr>)
       \<lparr>guesses = 3, correctGuesses = 3, hints = 2, reveals = 0\<rparr>) = 90
   \<and> rank (calculateScore ((exState ''[a]'')\<lparr>hintedExpressions := {|''a'', ''b''|}\<rparr>)
       \<lparr>guesses = 3, correctGuesses = 3, hints = 2, reveals = 0\<rparr>) = ''Power Broker''
   \<and> finalScore (calculateScore ((exState ''[a]'')\<lparr>revealedExpressions := {|''a''|}\<rparr>)
       \<lparr>guesses = 60, correctGuesses = 0, hints = 0, reveals = 1\<rparr>) = 0
   \<and> rank (calculateScore ((exState ''[a]'')\<lparr>revealedExpressions := {|''a''|}\<rparr>)
       \<lparr>guesses = 60, correctGuesses = 0, hints = 0, reveals = 1\<rparr>) = ''Tourist''
   \<and> finalScore (calculateScore ((exState ''[a]'')\<lparr>revealedExpressions := {|''a''|}\<rparr>)
       \<lparr>guesses = 9, correctGuesses = 0, hints = 0, reveals = 1\<rparr>) = 67
   \<and> rank (calculateScore ((exState ''[a]'')\<lparr>revealedExpressions := {|''a''|}\<rparr>)
       \<lparr>guesses = 9, correctGuesses = 0, hints = 0, reveals = 1\<rparr>) = ''Chief of Police''"
proof -
  let ?g1 = "(exState ''[a]'')\<lparr>hintedExpressions := {|''a'', ''b''|}\<rparr>"
  let ?s1 = "\<lparr>guesses = 3, correctGuesses = 3, hints = 2, reveals = 0\<rparr>"
  let ?g2 = "(exState ''[a]'')\<lparr>revealedExpressions := {|''a''|}\<rparr>"
  let ?s2 = "\<lparr>guesses = 60, correctGuesses = 0, hints = 0, reveals = 1\<rparr>"
  let ?s3 = "\<lparr>guesses = 9, correctGuesses = 0, hints = 0, reveals = 1\<rparr>"
  have card2: "fcard {|''a'', ''b''|} = 2" "fcard {|''a''|} = 1"
    by (simp_all add: fcard_finsert_if)
  have c1: "fcard (hintedExpressions ?g1) = 2" "fcard (revealedExpressions ?g1) = 0"
    using card2 by (simp_all add: exState_def)
  have c2: "fcard (hintedExpressions ?g2) = 0" "fcard (revealedExpressions ?g2) = 1"
    using card2 by (simp_all add: exState_def)
  note i1 = calculateScore_finalScore_rank [of ?g1 ?s1, unfolded Let_def c1]
    and i2 = calculateScore_finalScore_rank [of ?g2 ?s2, unfolded Let_def c2]
    and i3 = calculateScore_finalScore_rank [of ?g2 ?s3, unfolded Let_def c2]
  have t: "rankThresholds getScoreConfig =
      [(''Tourist'', 0), (''Commuter'', 11), (''Resident'', 21),
       (''Council Member'', 31), (''Chief of Police'', 51), (''Mayor'', 68),
       (''Power Broker'', 79), (''Kingmaker'', 91), (''Puppet Master'', 100)]"
    using i1 by blast
  have f1: "finalScore (calculateScore ?g1 ?s1) = 90" using i1 by simp
  have f2: "finalScore (calculateScore ?g2 ?s2) = 0" using i2 by simp
  have f3: "finalScore (calculateScore ?g2 ?s3) = 67" using i3 by simp
  have r1: "rank (calculateScore ?g1 ?s1) = ''Power Broker''"
    using i1 [THEN conjunct2, THEN conjunct2, THEN conjunct2] unfolding f1 by simp
  have r2: "rank (calculateScore ?g2 ?s2) = ''Tourist''"
    using i2 [THEN conjunct2, THEN conjunct2, THEN conjunct2] unfolding f2 by simp
  have r3: "rank (calculateScore ?g2 ?s3) = ''Chief of Police''"
    using i3 [THEN conjunct2, THEN conjunct2, THEN conjunct2] unfolding f3 by simp
  show ?thesis using t f1 f2 f3 r1 r2 r3 by blast
qed

text \<open>
  C6. Each of Guess, Hint and Reveal is all-or-nothing: whenever the outcome
  has \<open>success = False\<close>, the returned state is the input state, equal in every
  field.
\<close>

theorem failed_action_keeps_state:
  "(\<forall>r. makeGuess e g gs pd = Inr r \<and> \<not> success r \<longrightarrow> gameState r = gs)
   \<and> (\<forall>r. getHint e gs pd = Inr r \<and> \<not> success r \<longrightarrow> gameState r = gs)
   \<and> (\<not> success (revealClue e gs pd) \<longrightarrow> gameState (revealClue e gs pd) = gs)"
proof (intro conjI allI impI)
  fix r
  assume "makeGuess e g gs pd = Inr r \<and> \<not> success r"
  then show "gameState r = gs"
    by (auto simp: makeGuess_def noActiveClue_def Let_def dest: guessLoop_success
        split: sum.splits option.splits if_splits)
next
  fix r
  assume "getHint e gs pd = Inr r \<and> \<not> success r"
  then show "gameState r = gs"
    by (auto simp: getHint_def noActiveClue_def noSolutionFound_def Let_def
        split: option.splits JSValue.splits if_splits)
next
  assume "\<not> success (revealClue e gs pd)"
  then show "gameState (revealClue e gs pd) = gs"
    by (auto simp: revealClue_def noActiveClue_def noSolutionFound_def Let_def
        split: option.splits if_splits)
qed

theorem failed_action_keeps_state_witness:
  "(\<exists>r. makeGuess ''a'' ''y'' (exState ''[a]'') (exPuzzle ''[a]'' [''a'' \<mapsto> ''x'']) = Inr r
       \<and> \<not> success r \<and> gameState r = exState ''[a]'')
   \<and> (\<exists>r. getHint ''b'' (exState ''[a]'') (exPuzzle ''[a]'' [''a'' \<mapsto> ''x'']) = Inr r
       \<and> \<not> success r \<and> gameState r = exState ''[a]'')
   \<and> \<not> success (revealClue ''b'' (exState ''[a]'') (exPuzzle ''[a]'' [''a'' \<mapsto> ''x'']))
   \<and> gameState (revealClue ''b'' (exState ''[a]'') (exPuzzle ''[a]'' [''a'' \<mapsto> ''x''])) = exState ''[a]''"
proof -
  let ?gs = "exState ''[a]''"
  let ?pd = "exPuzzle ''[a]'' [''a'' \<mapsto> ''x'']"
  let ?r1 = "\<lparr>success = False, hint = None, solution = None,
      message = ''Incorrect guess '' @ dq @ ''y'' @ dq @ '' for '' @ dq @ ''a'' @ dq @ ''.'',
      gameState = ?gs\<rparr>"
  have ny: "trim (toLowerCase ''y'') \<noteq> trim (toLowerCase ''x'')" by code_simp
  have 1: "makeGuess ''a'' ''y'' ?gs ?pd = Inr ?r1"
    using ny by (simp add: makeGuess_def avail_a exPuzzle_def getProperty_def Let_def)
  have 2: "getHint ''b'' ?gs ?pd = Inr (noActiveClue ''b'' ?gs)"
    by (simp add: getHint_def avail_a)
  have 3: "\<not> success (revealClue ''b'' ?gs ?pd)"
    by (simp add: revealClue_def avail_a noActiveClue_def)
  note inst = failed_action_keeps_state [of "''a''" "''y''" ?gs ?pd]
    and inst' = failed_action_keeps_state [of "''b''" "''y''" ?gs ?pd]
  have a: "gameState ?r1 = ?gs"
    using inst 1 by simp
  have b: "gameState (noActiveClue ''b'' ?gs) = ?gs"
    using inst' 2 by (simp add: noActiveClue_def)
  have c: "gameState (revealClue ''b'' ?gs ?pd) = ?gs"
    using inst' 3 by simp
  have s1: "\<not> success ?r1" by simp
  have s2: "\<not> success (noActiveClue ''b'' ?gs)" by (simp add: noActiveClue_def)
  show ?thesis using 1 2 3 a b c s1 s2 by blast
qed

text \<open>
  C7, as amended. For an expression that the answer key has an entry for, or
  that names no property every object inherits, Reveal succeeds if and only if
  the expression names an active clue and has a non-empty answer-key entry.
  When it has one and names an active clue, Reveal succeeds, the bracketed
  span of the first clue with that expression in document order is replaced by
  the solution, and the expression is added to \<open>solvedExpressions\<close> and to
  \<open>revealedExpressions\<close>. A second Reveal of the same expression, when it is no
  longer active, fails and leaves \<open>revealedExpressions\<close> as it is.
\<close>

theorem revealClue_resolves_named_clue:
  "(\<not> inheritedName (solutions pd) e \<longrightarrow>
      (success (revealClue e gs pd) \<longleftrightarrow>
         (\<exists>x\<in>set (findAvailableExpressions gs). expression x = e)
         \<and> (\<exists>sol. solutions pd e = Some sol \<and> sol \<noteq> [])))
   \<and> (\<forall>x sol.
         x \<in> set (findAvailableExpressions gs) \<and> expression x = e
         \<and> (\<forall>y\<in>set (findAvailableExpressions gs). startIndex y < startIndex x \<longrightarrow> expression y \<noteq> e)
         \<and> solutions pd e = Some sol \<and> sol \<noteq> [] \<longrightarrow>
           success (revealClue e gs pd)
         \<and> displayState gs = take (startIndex x) (displayState gs) @ [LB] @ e @ [RB]
               @ drop (endIndex x) (displayState gs)
         \<and> displayState (gameState (revealClue e gs pd))
             = take (startIndex x) (displayState gs) @ sol @ drop (endIndex x) (displayState gs)
         \<and> solvedExpressions (gameState (revealClue e gs pd)) = finsert e (solvedExpressions gs)
         \<and> revealedExpressions (gameState (revealClue e gs pd))
             = finsert e (revealedExpressions gs))
   \<and> (success (revealClue e gs pd)
        \<and> (\<forall>x\<in>set (findAvailableExpressions (gameState (revealClue e gs pd))). expression x \<noteq> e)
        \<longrightarrow> \<not> success (revealClue e (gameState (revealClue e gs pd)) pd)
          \<and> revealedExpressions (gameState (revealClue e (gameState (revealClue e gs pd)) pd))
              = revealedExpressions (gameState (revealClue e gs pd)))"
proof (intro conjI allI impI)
  assume ni: "\<not> inheritedName (solutions pd) e"
  have tr: "truthy (getProperty (solutions pd) e) = (\<exists>sol. solutions pd e = Some sol \<and> sol \<noteq> [])"
    using ni by (auto simp: getProperty_def inheritedName_def split: option.splits)
  show "success (revealClue e gs pd) \<longleftrightarrow>
      (\<exists>x\<in>set (findAvailableExpressions gs). expression x = e)
      \<and> (\<exists>sol. solutions pd e = Some sol \<and> sol \<noteq> [])"
  proof (cases "find (\<lambda>x. expression x = e) (findAvailableExpressions gs)")
    case None
    then show ?thesis
      using find_None_set [of "\<lambda>x. expression x = e" "findAvailableExpressions gs"]
      by (simp add: revealClue_def noActiveClue_def)
  next
    case (Some t)
    then have "\<exists>x\<in>set (findAvailableExpressions gs). expression x = e"
      using find_None_set [of "\<lambda>x. expression x = e" "findAvailableExpressions gs"] by auto
    then show ?thesis using Some tr
      by (simp add: revealClue_def noSolutionFound_def Let_def)
  qed
next
  fix x sol
  assume a: "x \<in> set (findAvailableExpressions gs) \<and> expression x = e
         \<and> (\<forall>y\<in>set (findAvailableExpressions gs). startIndex y < startIndex x \<longrightarrow> expression y \<noteq> e)
         \<and> solutions pd e = Some sol \<and> sol \<noteq> []"
  then have xin: "x \<in> set (findAvailableExpressions gs)" by simp
  from available_span [OF xin] a
  show "displayState gs = take (startIndex x) (displayState gs) @ [LB] @ e @ [RB]
               @ drop (endIndex x) (displayState gs)" by simp
  obtain pre post where sp: "findAvailableExpressions gs = pre @ x # post"
    and left: "\<forall>y\<in>set pre. y \<in> set (findAvailableExpressions gs) \<and> startIndex y < startIndex x"
    using available_leftmost [OF xin] by blast
  have "\<forall>y\<in>set pre. expression y \<noteq> e" using a left by blast
  then have f: "find (\<lambda>x. expression x = e) (findAvailableExpressions gs) = Some x"
    unfolding sp using a find_first [of pre "\<lambda>x. expression x = e" x post] by simp
  have s: "getProperty (solutions pd) e = Str sol" "sol \<noteq> []"
    using a by (auto simp: getProperty_Str)
  show "success (revealClue e gs pd)"
    using s by (simp add: revealClue_def f Let_def)
  show "displayState (gameState (revealClue e gs pd))
             = take (startIndex x) (displayState gs) @ sol @ drop (endIndex x) (displayState gs)"
    using s by (simp add: revealClue_def f Let_def)
  show "solvedExpressions (gameState (revealClue e gs pd)) = finsert e (solvedExpressions gs)"
    using s by (simp add: revealClue_def f Let_def)
  show "revealedExpressions (gameState (revealClue e gs pd)) = finsert e (revealedExpressions gs)"
    using s by (simp add: revealClue_def f Let_def)
next
  let ?gs' = "gameState (revealClue e gs pd)"
  assume a: "success (revealClue e gs pd)
        \<and> (\<forall>x\<in>set (findAvailableExpressions ?gs'). expression x \<noteq> e)"
  then have n: "find (\<lambda>x. expression x = e) (findAvailableExpressions ?gs') = None"
    using find_None_set [of "\<lambda>x. expression x = e" "findAvailableExpressions ?gs'"] by simp
  have r2: "revealClue e ?gs' pd = noActiveClue e ?gs'"
    by (simp add: revealClue_def [of e ?gs' pd] n)
  show "\<not> success (revealClue e ?gs' pd)"
    by (simp add: r2 noActiveClue_def)
  show "revealedExpressions (gameState (revealClue e ?gs' pd)) = revealedExpressions ?gs'"
    by (simp add: r2 noActiveClue_def)
qed

theorem revealClue_resolves_named_clue_witness:
  "success (revealClue ''a'' (exState ''[a]'') (exPuzzle ''[a]'' [''a'' \<mapsto> ''x'']))
   \<and> displayState (gameState (revealClue ''a'' (exState ''[a]'') (exPuzzle ''[a]'' [''a'' \<mapsto> ''x''])))
       = ''x''
   \<and> solvedExpressions (gameState (revealClue ''a'' (exState ''[a]'')
        (exPuzzle ''[a]'' [''a'' \<mapsto> ''x'']))) = {|''a''|}
   \<and> revealedExpressions (gameState (revealClue ''a'' (exState ''[a]'')
        (exPuzzle ''[a]'' [''a'' \<mapsto> ''x'']))) = {|''a''|}
   \<and> \<not> success (revealClue ''a''
        (gameState (revealClue ''a'' (exState ''[a]'') (exPuzzle ''[a]'' [''a'' \<mapsto> ''x''])))
        (exPuzzle ''[a]'' [''a'' \<mapsto> ''x'']))
   \<and> revealedExpressions (gameState (revealClue ''a''
        (gameState (revealClue ''a'' (exState ''[a]'') (exPuzzle ''[a]'' [''a'' \<mapsto> ''x''])))
        (exPuzzle ''[a]'' [''a'' \<mapsto> ''x'']))) = {|''a''|}"
proof -
  let ?gs = "exState ''[a]''"
  let ?pd = "exPuzzle ''[a]'' [''a'' \<mapsto> ''x'']"
  let ?a = "\<lparr>expression = ''a'', startIndex = 0, endIndex = 3\<rparr>"
  note inst = revealClue_resolves_named_clue [of ?pd "''a''" ?gs]
  have sol: "solutions ?pd ''a'' = Some ''x''" by (simp add: exPuzzle_def)
  have ni: "\<not> inheritedName (solutions ?pd) ''a''" by (simp add: inheritedName_def sol)
  have ds: "displayState ?gs = ''[a]''" "solvedExpressions ?gs = {||}" "revealedExpressions ?gs = {||}"
    by (simp_all add: exState_def)
  have 1: "success (revealClue ''a'' ?gs ?pd)"
    using inst [THEN conjunct1] ni sol by (simp add: avail_a)
  have pre: "?a \<in> set (findAvailableExpressions ?gs) \<and> expression ?a = ''a''
         \<and> (\<forall>y\<in>set (findAvailableExpressions ?gs). startIndex y < startIndex ?a \<longrightarrow> expression y \<noteq> ''a'')
         \<and> solutions ?pd ''a'' = Some ''x'' \<and> ''x'' \<noteq> []"
    using sol by (simp add: avail_a)
  have 2: "displayState (gameState (revealClue ''a'' ?gs ?pd))
             = take (startIndex ?a) (displayState ?gs) @ ''x'' @ drop (endIndex ?a) (displayState ?gs)
         \<and> solvedExpressions (gameState (revealClue ''a'' ?gs ?pd)) = finsert ''a'' (solvedExpressions ?gs)
         \<and> revealedExpressions (gameState (revealClue ''a'' ?gs ?pd))
             = finsert ''a'' (revealedExpressions ?gs)"
    using inst [THEN conjunct2, THEN conjunct1, rule_format, OF pre] by blast
  have gone: "findAvailableExpressions (gameState (revealClue ''a'' ?gs ?pd)) = []"
    by (simp add: reveal_a findAvailableExpressions_def)
  have 3: "\<not> success (revealClue ''a'' (gameState (revealClue ''a'' ?gs ?pd)) ?pd)
          \<and> revealedExpressions (gameState (revealClue ''a'' (gameState (revealClue ''a'' ?gs ?pd)) ?pd))
              = revealedExpressions (gameState (revealClue ''a'' ?gs ?pd))"
    using inst [THEN conjunct2, THEN conjunct2] 1 by (simp add: gone)
  show ?thesis using 1 2 3 by (simp add: ds)
qed

text \<open>C7 as stated fails in two ways. For an answer-key entry that is the empty
  string: the clue is active and has an entry, and Reveal fails. For the
  expression \<open>constructor\<close> and an empty answer key: there is no entry, and
  Reveal succeeds and puts the text of the inherited function into the
  document.\<close>

theorem revealClue_rejects_empty_and_accepts_inherited:
  "(\<exists>x\<in>set (findAvailableExpressions (exState ''[a]'')). expression x = ''a'')
   \<and> solutions (exPuzzle ''[a]'' [''a'' \<mapsto> []]) ''a'' = Some []
   \<and> \<not> success (revealClue ''a'' (exState ''[a]'') (exPuzzle ''[a]'' [''a'' \<mapsto> []]))
   \<and> solutions (exPuzzle ''[constructor]'' Map.empty) ''constructor'' = None
   \<and> success (revealClue ''constructor'' (exState ''[constructor]'')
        (exPuzzle ''[constructor]'' Map.empty))
   \<and> displayState (gameState (revealClue ''constructor'' (exState ''[constructor]'')
        (exPuzzle ''[constructor]'' Map.empty))) = nativeFunction ''Object''"
  by (simp add: avail_a avail_constructor exPuzzle_def revealClue_def noSolutionFound_def
      getProperty_def inherited_constructor Let_def) (simp add: exState_def)

text \<open>
  C8, as amended. For an expression that names an active clue and has a
  non-empty answer-key entry, Hint returns an outcome, succeeds and returns
  the first character of the solution. The returned state is the input state
  with the expression inserted into \<open>hintedExpressions\<close>; \<open>displayState\<close>,
  \<open>solvedExpressions\<close>, \<open>revealedExpressions\<close> and \<open>totalClues\<close> are unchanged,
  and a second Hint for the same expression leaves \<open>hintedExpressions\<close> the same
  set.
\<close>

theorem getHint_first_letter_and_frame:
  assumes "\<exists>x\<in>set (findAvailableExpressions gs). expression x = e"
    and "solutions pd e = Some sol" and "sol \<noteq> []"
  shows "\<exists>r r2. getHint e gs pd = Inr r
     \<and> success r
     \<and> hint r = Some [hd sol]
     \<and> gameState r = gs\<lparr>hintedExpressions := finsert e (hintedExpressions gs)\<rparr>
     \<and> displayState (gameState r) = displayState gs
     \<and> solvedExpressions (gameState r) = solvedExpressions gs
     \<and> revealedExpressions (gameState r) = revealedExpressions gs
     \<and> totalClues (gameState r) = totalClues gs
     \<and> getHint e (gameState r) pd = Inr r2
     \<and> hintedExpressions (gameState r2) = hintedExpressions (gameState r)"
proof -
  obtain t where f: "find (\<lambda>x. expression x = e) (findAvailableExpressions gs) = Some t"
    using assms(1) find_None_set [of "\<lambda>x. expression x = e" "findAvailableExpressions gs"]
    by (cases "find (\<lambda>x. expression x = e) (findAvailableExpressions gs)") auto
  have tk: "take (Suc 0) sol = [hd sol]" using assms(3) by (cases sol) auto
  have gp: "getProperty (solutions pd) e = Str sol"
    using assms(2) by (simp add: getProperty_Str)
  let ?gs' = "gs\<lparr>hintedExpressions := finsert e (hintedExpressions gs)\<rparr>"
  let ?msg = "''Hint for '' @ dq @ e @ dq @ '': The answer begins with '' @ dq @ [hd sol] @ dq @ ''.''"
  have r: "getHint e gs pd =
      Inr \<lparr>success = True, hint = Some [hd sol], solution = None, message = ?msg, gameState = ?gs'\<rparr>"
    using assms(3) by (simp add: getHint_def f gp Let_def tk)
  have av: "findAvailableExpressions ?gs' = findAvailableExpressions gs"
    by (simp add: findAvailableExpressions_def)
  have r': "getHint e ?gs' pd =
      Inr \<lparr>success = True, hint = Some [hd sol], solution = None, message = ?msg,
        gameState = ?gs'\<lparr>hintedExpressions := finsert e (hintedExpressions ?gs')\<rparr>\<rparr>"
    using assms(3) by (simp add: getHint_def av f gp Let_def tk)
  show ?thesis
    unfolding r
    by (intro exI [of _ "\<lparr>success = True, hint = Some [hd sol], solution = None, message = ?msg,
          gameState = ?gs'\<rparr>"]
        exI [of _ "\<lparr>success = True, hint = Some [hd sol], solution = None, message = ?msg,
          gameState = ?gs'\<lparr>hintedExpressions := finsert e (hintedExpressions ?gs')\<rparr>\<rparr>"])
      (simp add: r')
qed

theorem getHint_first_letter_and_frame_witness:
  "(\<exists>x\<in>set (findAvailableExpressions (exState ''[a]'')). expression x = ''a'')
   \<and> solutions (exPuzzle ''[a]'' [''a'' \<mapsto> ''Paris'']) ''a'' = Some ''Paris''
   \<and> (\<exists>r r2. getHint ''a'' (exState ''[a]'') (exPuzzle ''[a]'' [''a'' \<mapsto> ''Paris'']) = Inr r
        \<and> success r \<and> hint r = Some ''P''
        \<and> gameState r = (exState ''[a]'')\<lparr>hintedExpressions := {|''a''|}\<rparr>
        \<and> getHint ''a'' (gameState r) (exPuzzle ''[a]'' [''a'' \<mapsto> ''Paris'']) = Inr r2
        \<and> hintedExpressions (gameState r2) = {|''a''|})"
proof -
  have a: "\<exists>x\<in>set (findAvailableExpressions (exState ''[a]'')). expression x = ''a''"
    by (simp add: avail_a)
  have s: "solutions (exPuzzle ''[a]'' [''a'' \<mapsto> ''Paris'']) ''a'' = Some ''Paris''"
    by (simp add: exPuzzle_def)
  have n: "''Paris'' \<noteq> []" by simp
  have h: "hintedExpressions (exState ''[a]'') = {||}" by (simp add: exState_def)
  obtain r r2 where
    1: "getHint ''a'' (exState ''[a]'') (exPuzzle ''[a]'' [''a'' \<mapsto> ''Paris'']) = Inr r"
    and 2: "success r" and 3: "hint r = Some [hd ''Paris'']"
    and 4: "gameState r = (exState ''[a]'')\<lparr>hintedExpressions :=
        finsert ''a'' (hintedExpressions (exState ''[a]''))\<rparr>"
    and 5: "getHint ''a'' (gameState r) (exPuzzle ''[a]'' [''a'' \<mapsto> ''Paris'']) = Inr r2"
    and 6: "hintedExpressions (gameState r2) = hintedExpressions (gameState r)"
    using getHint_first_letter_and_frame [OF a s n] by blast
  have h3: "hint r = Some ''P''" using 3 by simp
  have h4: "gameState r = (exState ''[a]'')\<lparr>hintedExpressions := {|''a''|}\<rparr>"
    using 4 by (simp add: h)
  have h6: "hintedExpressions (gameState r2) = {|''a''|}"
    using 6 by (simp add: h4)
  show ?thesis using a s 1 2 h3 h4 5 h6 by blast
qed

text \<open>C8 as stated fails for an answer-key entry that is the empty string: the
  clue is active and has an entry, and Hint fails without a hint.\<close>

theorem getHint_rejects_empty_solution:
  "(\<exists>x\<in>set (findAvailableExpressions (exState ''[a]'')). expression x = ''a'')
   \<and> solutions (exPuzzle ''[a]'' [''a'' \<mapsto> []]) ''a'' = Some []
   \<and> getHint ''a'' (exState ''[a]'') (exPuzzle ''[a]'' [''a'' \<mapsto> []])
       = Inr (noSolutionFound ''a'' (exState ''[a]''))
   \<and> \<not> success (noSolutionFound ''a'' (exState ''[a]''))
   \<and> hint (noSolutionFound ''a'' (exState ''[a]'')) = None"
  by (simp add: avail_a exPuzzle_def getHint_def noSolutionFound_def getProperty_def)

text \<open>
  C9, as amended. A run is complete when \<open>findAvailableExpressions\<close> finds no
  clue in its last state. The result of a run whose tools all return is this:
  when clues that \<open>findAvailableExpressions\<close> lists are left, it is no success
  and carries score 0 and rank "Tourist", whatever \<open>calculateScore\<close> computes;
  when none is left, it is a success and carries the final score and the rank
  that \<open>calculateScore\<close> computes. On a balanced last document, such a clue is
  left exactly when \<open>findActiveClues\<close> reports a clue with a non-empty
  expression: empty pairs of brackets do not keep a run from being complete.
\<close>

theorem reported_score_gated_by_completion:
  assumes "runTools pd calls = Inr st"
  shows "\<exists>r. solvePuzzleWithLLM pd calls = Inr r
     \<and> (findAvailableExpressions (curGameState st) \<noteq> [] \<longrightarrow>
          \<not> resSuccess r \<and> resScore r = 0 \<and> resRank r = ''Tourist'')
     \<and> (findAvailableExpressions (curGameState st) = [] \<longrightarrow>
          resSuccess r
          \<and> resScore r = finalScore (calculateScore (curGameState st) (curStats st))
          \<and> resRank r = rank (calculateScore (curGameState st) (curStats st)))
     \<and> (balanced (displayState (curGameState st)) \<longrightarrow>
          ((findAvailableExpressions (curGameState st) \<noteq> [])
            \<longleftrightarrow> (\<exists>c\<in>set (findActiveClues (displayState (curGameState st))).
                   clueExpression c \<noteq> [])))"
  using assms available_active_nonempty [of "curGameState st"]
  by (simp add: solvePuzzleWithLLM_def Let_def)

theorem reported_score_gated_by_completion_witness:
  "(\<exists>st r. runTools (exPuzzle ''[a]'' [''a'' \<mapsto> ''x'']) [] = Inr st
       \<and> findAvailableExpressions (curGameState st) \<noteq> []
       \<and> finalScore (calculateScore (curGameState st) (curStats st)) = 100
       \<and> solvePuzzleWithLLM (exPuzzle ''[a]'' [''a'' \<mapsto> ''x'']) [] = Inr r
       \<and> \<not> resSuccess r \<and> resScore r = 0 \<and> resRank r = ''Tourist'')
   \<and> (\<exists>st r. runTools (exPuzzle ''[a]'' [''a'' \<mapsto> ''x'']) [MakeGuessCall ''a'' ''x''] = Inr st
       \<and> findAvailableExpressions (curGameState st) = []
       \<and> solvePuzzleWithLLM (exPuzzle ''[a]'' [''a'' \<mapsto> ''x'']) [MakeGuessCall ''a'' ''x''] = Inr r
       \<and> resSuccess r \<and> resScore r = 100 \<and> resRank r = ''Puppet Master'')"
proof -
  let ?pd = "exPuzzle ''[a]'' [''a'' \<mapsto> ''x'']"
  let ?st0 = "\<lparr>curGameState = exState ''[a]'',
      curStats = \<lparr>guesses = 0, correctGuesses = 0, hints = 0, reveals = 0\<rparr>,
      completedPuzzle = False\<rparr>"
  let ?st1 = "\<lparr>curGameState = (exState ''[a]'')\<lparr>displayState := ''x'', solvedExpressions := {|''a''|},
          activeClues := []\<rparr>,
      curStats = \<lparr>guesses = 1, correctGuesses = 1, hints = 0, reveals = 0\<rparr>,
      completedPuzzle = True\<rparr>"
  have a: "findAvailableExpressions (curGameState ?st0) \<noteq> []"
    by (simp add: avail_a)
  have b: "findAvailableExpressions (curGameState ?st1) = []"
    by (simp add: findAvailableExpressions_def)
  have c: "finalScore (calculateScore (curGameState ?st0) (curStats ?st0)) = 100"
    by (simp add: calculateScore_def Let_def exState_def getScoreConfig_def)
  have d: "finalScore (calculateScore (curGameState ?st1) (curStats ?st1)) = 100"
    "rank (calculateScore (curGameState ?st1) (curStats ?st1)) = ''Puppet Master''"
    by (simp_all add: calculateScore_def Let_def exState_def getScoreConfig_def
        calculateRank_def)
  obtain r0 where r0: "solvePuzzleWithLLM ?pd [] = Inr r0"
    "\<not> resSuccess r0 \<and> resScore r0 = 0 \<and> resRank r0 = ''Tourist''"
    using reported_score_gated_by_completion [OF run0] a by blast
  obtain r1 where r1: "solvePuzzleWithLLM ?pd [MakeGuessCall ''a'' ''x''] = Inr r1"
    "resSuccess r1 \<and> resScore r1 = 100 \<and> resRank r1 = ''Puppet Master''"
    using reported_score_gated_by_completion [OF run1] b d by auto
  show ?thesis
    using run0 run1 a b c r0 r1 by blast
qed

text \<open>C9 as stated fails on the document \<open>[] done\<close>: \<open>findActiveClues\<close> reports the
  empty pair as a clue that remains, and the run without a tool call is
  reported as a success with score 100 and rank "Puppet Master".\<close>

theorem empty_brackets_remain_in_completed_run:
  "findActiveClues ''[] done''
     = [\<lparr>start = 0, endPos = 2, rawText = ''[]'', clueExpression = []\<rparr>]
   \<and> runTools (exPuzzle ''[] done'' Map.empty) []
     = Inr \<lparr>curGameState = (exState ''[] done'')\<lparr>totalClues := 0\<rparr>,
        curStats = \<lparr>guesses = 0, correctGuesses = 0, hints = 0, reveals = 0\<rparr>,
        completedPuzzle = False\<rparr>
   \<and> displayState ((exState ''[] done'')\<lparr>totalClues := 0\<rparr>) = ''[] done''
   \<and> solvePuzzleWithLLM (exPuzzle ''[] done'' Map.empty) []
     = Inr \<lparr>resSuccess = True,
        resStats = \<lparr>guesses = 0, correctGuesses = 0, hints = 0, reveals = 0\<rparr>,
        resScore = 100, resRank = ''Puppet Master'',
        resScoreDetails = \<lparr>baseScore = 100, peekPenalty = 0, megaPeekPenalty = 0,
          wrongGuessPenalty = 0, totalPenalty = 0, finalScore = 100, rank = ''Puppet Master'',
          nextRankName = None, pointsToNextRank = 0\<rparr>\<rparr>"
proof -
  have r: "runTools (exPuzzle ''[] done'' Map.empty) []
     = Inr \<lparr>curGameState = (exState ''[] done'')\<lparr>totalClues := 0\<rparr>,
        curStats = \<lparr>guesses = 0, correctGuesses = 0, hints = 0, reveals = 0\<rparr>,
        completedPuzzle = False\<rparr>"
    by (simp add: runTools_def initializeGameState_def exPuzzle_def exState_def)
  have av: "findAvailableExpressions ((exState ''[] done'')\<lparr>totalClues := 0\<rparr>) = []"
    by (simp add: findAvailableExpressions_def exState_def notBracket_def)
  have sc: "calculateScore ((exState ''[] done'')\<lparr>totalClues := 0\<rparr>)
       \<lparr>guesses = 0, correctGuesses = 0, hints = 0, reveals = 0\<rparr>
     = \<lparr>baseScore = 100, peekPenalty = 0, megaPeekPenalty = 0,
          wrongGuessPenalty = 0, totalPenalty = 0, finalScore = 100, rank = ''Puppet Master'',
          nextRankName = None, pointsToNextRank = 0\<rparr>"
    by (simp add: calculateScore_def Let_def exState_def getScoreConfig_def
        calculateRank_def sortAscending_def)
  have "findActiveClues ''[] done''
     = [\<lparr>start = 0, endPos = 2, rawText = ''[]'', clueExpression = []\<rparr>]"
    by (simp add: findActiveClues_def)
  moreover have "solvePuzzleWithLLM (exPuzzle ''[] done'' Map.empty) []
     = Inr \<lparr>resSuccess = True,
        resStats = \<lparr>guesses = 0, correctGuesses = 0, hints = 0, reveals = 0\<rparr>,
        resScore = 100, resRank = ''Puppet Master'',
        resScoreDetails = \<lparr>baseScore = 100, peekPenalty = 0, megaPeekPenalty = 0,
          wrongGuessPenalty = 0, totalPenalty = 0, finalScore = 100, rank = ''Puppet Master'',
          nextRankName = None, pointsToNextRank = 0\<rparr>\<rparr>"
    by (simp add: solvePuzzleWithLLM_def r av sc Let_def)
  ultimately show ?thesis using r by (simp add: exState_def)
qed

text \<open>
  C10, as amended. When the answer-key entry of an expression \<open>e\<close> is the empty
  string, and \<open>e\<close> names no property that every object inherits, the three
  operations return what they return without the entry. The matching loop of
  Guess passes over a clue with that expression, whatever the guess. Hint and
  Reveal for \<open>e\<close> fail and return the input state: with the "No solution found"
  outcome when \<open>e\<close> names an active clue, and with the "No active bracketed
  clue" outcome when it does not. Hint never returns the empty string as a
  hint.
\<close>

theorem empty_solution_is_no_solution:
  assumes "solutions pd e = Some []" and "map_of objectPrototype e = None"
  shows "makeGuess e' g gs pd = makeGuess e' g gs (pd\<lparr>solutions := (solutions pd)(e := None)\<rparr>)
     \<and> getHint e' gs pd = getHint e' gs (pd\<lparr>solutions := (solutions pd)(e := None)\<rparr>)
     \<and> revealClue e' gs pd = revealClue e' gs (pd\<lparr>solutions := (solutions pd)(e := None)\<rparr>)
     \<and> (expression x = e \<longrightarrow> guessLoop (x # es) g gs pd = guessLoop es g gs pd)
     \<and> getHint e gs pd =
         (if \<exists>x\<in>set (findAvailableExpressions gs). expression x = e
          then Inr (noSolutionFound e gs) else Inr (noActiveClue e gs))
     \<and> revealClue e gs pd =
         (if \<exists>x\<in>set (findAvailableExpressions gs). expression x = e
          then noSolutionFound e gs else noActiveClue e gs)
     \<and> \<not> success (noSolutionFound e gs) \<and> gameState (noSolutionFound e gs) = gs
     \<and> \<not> success (noActiveClue e gs) \<and> gameState (noActiveClue e gs) = gs
     \<and> (\<forall>r. getHint e' gs pd = Inr r \<longrightarrow> hint r \<noteq> Some [])"
proof -
  let ?pd' = "pd\<lparr>solutions := (solutions pd)(e := None)\<rparr>"
  have gp: "getProperty (solutions pd) e = Str []"
    using assms(1) by (simp add: getProperty_Str)
  have gp': "getProperty (solutions ?pd') e = Undefined"
    using assms(2) by (simp add: getProperty_Undefined)
  have other: "getProperty (solutions ?pd') k = getProperty (solutions pd) k" if "k \<noteq> e" for k
    using that by (simp add: getProperty_def)
  have same: "(case getProperty (solutions pd) k of Str [] \<Rightarrow> Undefined | v \<Rightarrow> v)
       = (case getProperty (solutions ?pd') k of Str [] \<Rightarrow> Undefined | v \<Rightarrow> v)" for k
    using gp gp' other [of k] by (cases "k = e") simp_all
  have tr: "truthy (getProperty ((solutions pd)(e := None)) k) = truthy (getProperty (solutions pd) k)"
    for k
    using gp gp' other [of k] by (cases "k = e") simp_all
  have gl: "guessLoop es' g gs pd = guessLoop es' g gs ?pd'" for es'
    by (rule guessLoop_cong) (rule same)
  have 1: "makeGuess e' g gs pd = makeGuess e' g gs ?pd'"
    by (simp add: makeGuess_def gl tr Let_def)
  have 2: "getHint e' gs pd = getHint e' gs ?pd'"
    using gp gp' other [of e']
    by (cases "e' = e") (auto simp: getHint_def Let_def split: option.splits)
  have 3: "revealClue e' gs pd = revealClue e' gs ?pd'"
    using gp gp' other [of e']
    by (cases "e' = e") (auto simp: revealClue_def Let_def split: option.splits)
  have 4: "expression x = e \<longrightarrow> guessLoop (x # es) g gs pd = guessLoop es g gs pd"
    using gp by (simp add: Let_def)
  have 5: "getHint e gs pd =
         (if \<exists>x\<in>set (findAvailableExpressions gs). expression x = e
          then Inr (noSolutionFound e gs) else Inr (noActiveClue e gs))"
    using gp find_None_set [of "\<lambda>x. expression x = e" "findAvailableExpressions gs"]
    by (auto simp: getHint_def Let_def split: option.splits)
  have 6: "revealClue e gs pd =
         (if \<exists>x\<in>set (findAvailableExpressions gs). expression x = e
          then noSolutionFound e gs else noActiveClue e gs)"
    using gp find_None_set [of "\<lambda>x. expression x = e" "findAvailableExpressions gs"]
    by (auto simp: revealClue_def Let_def split: option.splits)
  have 7: "\<forall>r. getHint e' gs pd = Inr r \<longrightarrow> hint r \<noteq> Some []"
    by (auto simp: getHint_def noActiveClue_def noSolutionFound_def Let_def
        split: option.splits JSValue.splits if_splits)
  have 8: "\<not> success (noSolutionFound e gs) \<and> gameState (noSolutionFound e gs) = gs
     \<and> \<not> success (noActiveClue e gs) \<and> gameState (noActiveClue e gs) = gs"
    by (simp add: noSolutionFound_def noActiveClue_def)
  show ?thesis
    using 1 2 3 4 5 6 7 8 by blast
qed

theorem empty_solution_is_no_solution_witness:
  "solutions (exPuzzle ''[a]'' [''a'' \<mapsto> []]) ''a'' = Some []
   \<and> map_of objectPrototype ''a'' = None
   \<and> makeGuess ''a'' [] (exState ''[a]'') (exPuzzle ''[a]'' [''a'' \<mapsto> []])
       = Inr (noActiveClue ''a'' (exState ''[a]''))
   \<and> makeGuess ''a'' [] (exState ''[a]'') (exPuzzle ''[a]'' Map.empty)
       = Inr (noActiveClue ''a'' (exState ''[a]''))
   \<and> getHint ''a'' (exState ''[a]'') (exPuzzle ''[a]'' [''a'' \<mapsto> []])
       = Inr (noSolutionFound ''a'' (exState ''[a]''))
   \<and> revealClue ''a'' (exState ''[a]'') (exPuzzle ''[a]'' [''a'' \<mapsto> []])
       = noSolutionFound ''a'' (exState ''[a]'')
   \<and> guessLoop [\<lparr>expression = ''a'', startIndex = 0, endIndex = 3\<rparr>] [] (exState ''[a]'')
        (exPuzzle ''[a]'' [''a'' \<mapsto> []]) = Inr None"
proof -
  let ?pd = "exPuzzle ''[a]'' [''a'' \<mapsto> []]"
  let ?gs = "exState ''[a]''"
  let ?a = "\<lparr>expression = ''a'', startIndex = 0, endIndex = 3\<rparr>"
  have s: "solutions ?pd ''a'' = Some []" by (simp add: exPuzzle_def)
  have ni: "map_of objectPrototype ''a'' = None" by (rule not_inherited_ab)
  have rm: "?pd\<lparr>solutions := (solutions ?pd)(''a'' := None)\<rparr> = exPuzzle ''[a]'' Map.empty"
    by (simp add: exPuzzle_def)
  have m0: "makeGuess ''a'' [] ?gs (exPuzzle ''[a]'' Map.empty) = Inr (noActiveClue ''a'' ?gs)"
    by (simp add: makeGuess_def avail_a exPuzzle_def getProperty_def ni Let_def)
  have act: "\<exists>x\<in>set (findAvailableExpressions ?gs). expression x = ''a''"
    by (simp add: avail_a)
  note inst = empty_solution_is_no_solution [OF s ni, of "''a''" "[]" ?gs ?a "[]", unfolded rm]
  from inst have "makeGuess ''a'' [] ?gs ?pd = makeGuess ''a'' [] ?gs (exPuzzle ''[a]'' Map.empty)"
    by blast
  then have 1: "makeGuess ''a'' [] ?gs ?pd = Inr (noActiveClue ''a'' ?gs)"
    using m0 by simp
  from inst have "getHint ''a'' ?gs ?pd =
      (if \<exists>x\<in>set (findAvailableExpressions ?gs). expression x = ''a''
       then Inr (noSolutionFound ''a'' ?gs) else Inr (noActiveClue ''a'' ?gs))"
    by blast
  then have 2: "getHint ''a'' ?gs ?pd = Inr (noSolutionFound ''a'' ?gs)"
    using act by simp
  from inst have "revealClue ''a'' ?gs ?pd =
      (if \<exists>x\<in>set (findAvailableExpressions ?gs). expression x = ''a''
       then noSolutionFound ''a'' ?gs else noActiveClue ''a'' ?gs)"
    by blast
  then have 3: "revealClue ''a'' ?gs ?pd = noSolutionFound ''a'' ?gs"
    using act by simp
  from inst have "expression ?a = ''a'' \<longrightarrow> guessLoop (?a # []) [] ?gs ?pd = guessLoop [] [] ?gs ?pd"
    by blast
  then have 4: "guessLoop [?a] [] ?gs ?pd = Inr None"
    by simp
  show ?thesis
    using s ni 1 m0 2 3 4 by blast
qed

text \<open>C10 as stated fails in two ways. For \<open>e = constructor\<close> the empty entry and
  the missing entry differ: with the empty entry Hint returns "No solution
  found" and Reveal fails, without the entry Hint throws a \<open>TypeError\<close> and
  Reveal succeeds. For an expression \<open>a\<close> that is not active, Hint and Reveal
  return the "No active bracketed clue" outcome, not "No solution found".\<close>

theorem empty_solution_differs_for_inherited_or_inactive:
  "solutions (exPuzzle ''[constructor]'' [''constructor'' \<mapsto> []]) ''constructor'' = Some []
   \<and> getHint ''constructor'' (exState ''[constructor]'')
        (exPuzzle ''[constructor]'' [''constructor'' \<mapsto> []])
       = Inr (noSolutionFound ''constructor'' (exState ''[constructor]''))
   \<and> getHint ''constructor'' (exState ''[constructor]'') (exPuzzle ''[constructor]'' Map.empty)
       = Inl TypeError
   \<and> \<not> success (revealClue ''constructor'' (exState ''[constructor]'')
        (exPuzzle ''[constructor]'' [''constructor'' \<mapsto> []]))
   \<and> success (revealClue ''constructor'' (exState ''[constructor]'')
        (exPuzzle ''[constructor]'' Map.empty))
   \<and> solutions (exPuzzle ''[b]'' [''a'' \<mapsto> []]) ''a'' = Some []
   \<and> getHint ''a'' (exState ''[b]'') (exPuzzle ''[b]'' [''a'' \<mapsto> []])
       = Inr (noActiveClue ''a'' (exState ''[b]''))
   \<and> revealClue ''a'' (exState ''[b]'') (exPuzzle ''[b]'' [''a'' \<mapsto> []])
       = noActiveClue ''a'' (exState ''[b]'')
   \<and> message (noActiveClue ''a'' (exState ''[b]''))
       = ''No active bracketed clue found for '' @ dq @ ''a'' @ dq @ ''.''
   \<and> message (noActiveClue ''a'' (exState ''[b]''))
       \<noteq> message (noSolutionFound ''a'' (exState ''[b]''))"
  by (simp add: exPuzzle_def getHint_def revealClue_def avail_constructor avail_b getProperty_def
      inherited_constructor noSolutionFound_def noActiveClue_def Let_def)

end
